theory Spec2Isabelle
  imports Main "HOL-Library.Word" "HOL-Library.AList" "HOL-Library.Char_ord"
    "HOL-Library.List_Lexorder"
begin

section \<open>Values, keys and errors\<close>

text \<open>
  A value is a Go \<^verbatim>\<open>[]byte\<close>; a key is the string held by a \<^verbatim>\<open>ds.Key\<close>
  (\<^verbatim>\<open>key.String()\<close> returns it unchanged).
\<close>

type_synonym bytes = "8 word list"
type_synonym Key = string

text \<open>
  Go errors as values. The sentinels \<^verbatim>\<open>ds.ErrNotFound\<close>, \<^verbatim>\<open>sql.ErrNoRows\<close>,
  \<^verbatim>\<open>sql.ErrTxDone\<close> and the error of a closed handle are constructors of their own, so
  that the
  source's comparisons \<^verbatim>\<open>err == sql.ErrNoRows\<close> are equalities of the model.
  \<open>ErrorString\<close> is what \<^verbatim>\<open>errors.New\<close> and \<^verbatim>\<open>fmt.Errorf\<close> build, \<open>Wrap\<close> is
  \<^verbatim>\<open>errors.Wrap(err, msg)\<close>, and \<open>DriverError\<close> is any error raised by the SQL driver or
  engine.
\<close>

datatype error =
    ErrNotFound
  | ErrNoRows
  | ErrTxDone
  | ErrDBClosed
  | ErrorString string
  | DriverError string
  | Wrap error string

text \<open>
  A Go call either returns or panics; \<open>NilDeref\<close> is the runtime panic of a method
  called through a nil pointer.
\<close>

datatype panic = NilDeref

datatype 'a go = Return 'a | Panic panic

section \<open>The fragment of fmt.Sprintf used by the statement templates\<close>

text \<open>
  \<^verbatim>\<open>fmt.Sprintf\<close> belongs to the Go library, not to the repository; what follows is its
  behaviour on the templates with a \<^verbatim>\<open>%s\<close> or \<^verbatim>\<open>%d\<close> hole. First the decimal rendering
  of a Go integer (the verb \<^verbatim>\<open>%d\<close>).
\<close>

definition digit :: "nat \<Rightarrow> char" where
  "digit d = char_of (of_char (CHR ''0'') + d)"

fun dec_nat :: "nat \<Rightarrow> string" where
  "dec_nat n = (if n < 10 then [digit n] else dec_nat (n div 10) @ [digit (n mod 10)])"

declare dec_nat.simps [simp del]

definition dec_int :: "int \<Rightarrow> string" where
  "dec_int i = (if i < 0 then CHR ''-'' # dec_nat (nat (- i)) else dec_nat (nat i))"

datatype fmt_arg = FStr string | FInt int

text \<open>
  One operand under one verb. \<^verbatim>\<open>%s\<close> and \<^verbatim>\<open>%v\<close> print a string as it is, \<^verbatim>\<open>%d\<close> and
  \<^verbatim>\<open>%v\<close> print an integer in decimal; a verb that does not fit its operand is printed
  the way fmt reports it (\<^verbatim>\<open>%!d(string=abc)\<close>). Flags, widths and the other verbs of fmt
  occur in no template of this repository and are not modelled.
\<close>

definition fmt_verb :: "char \<Rightarrow> fmt_arg \<Rightarrow> string" where
  "fmt_verb v a =
     (case a of
        FStr s \<Rightarrow>
          (if v = CHR ''s'' \<or> v = CHR ''v'' then s
           else ''%!'' @ [v] @ ''(string='' @ s @ '')'')
      | FInt n \<Rightarrow>
          (if v = CHR ''d'' \<or> v = CHR ''v'' then dec_int n
           else ''%!'' @ [v] @ ''(int='' @ dec_int n @ '')''))"

definition fmt_extra_one :: "fmt_arg \<Rightarrow> string" where
  "fmt_extra_one a =
     (case a of FStr s \<Rightarrow> ''string='' @ s | FInt n \<Rightarrow> ''int='' @ dec_int n)"

fun fmt_join :: "string \<Rightarrow> string list \<Rightarrow> string" where
  "fmt_join sep [] = []"
| "fmt_join sep [x] = x"
| "fmt_join sep (x # y # ys) = x @ sep @ fmt_join sep (y # ys)"

definition fmt_extra :: "fmt_arg list \<Rightarrow> string" where
  "fmt_extra args =
     (if args = [] then []
      else ''%!(EXTRA '' @ fmt_join '', '' (map fmt_extra_one args) @ '')'')"

fun Sprintf :: "string \<Rightarrow> fmt_arg list \<Rightarrow> string" where
  "Sprintf [] args = fmt_extra args"
| "Sprintf [c] args =
     (if c = CHR ''%'' then ''%!(NOVERB)'' @ fmt_extra args else c # fmt_extra args)"
| "Sprintf (c # v # fs) args =
     (if c \<noteq> CHR ''%'' then c # Sprintf (v # fs) args
      else if v = CHR ''%'' then CHR ''%'' # Sprintf fs args
      else (case args of
              [] \<Rightarrow> ''%!'' @ [v] @ ''(MISSING)'' @ Sprintf fs []
            | a # rest \<Rightarrow> fmt_verb v a @ Sprintf fs rest))"

section \<open>Dialect providers\<close>

text \<open>
  The interface \<^verbatim>\<open>Queries\<close> has nine methods without arguments; both implementations are
  structs of nine strings whose methods return the fields, so a statement set is the record
  of those strings and \<^verbatim>\<open>q.Delete()\<close> is \<open>deleteQuery q\<close>, and so on.
\<close>

record Queries =
  deleteQuery :: string
  existsQuery :: string
  getQuery :: string
  putQuery :: string
  queryQuery :: string
  prefixQuery :: string
  limitQuery :: string
  offsetQuery :: string
  getSizeQuery :: string

text \<open>\<^verbatim>\<open>postgres.NewQueries\<close>.\<close>

definition postgres_NewQueries :: "string \<Rightarrow> Queries" where
  "postgres_NewQueries tbl =
     \<lparr> deleteQuery = Sprintf ''DELETE FROM %s WHERE key = $1'' [FStr tbl],
       existsQuery = Sprintf ''SELECT exists(SELECT 1 FROM %s WHERE key=$1)'' [FStr tbl],
       getQuery = Sprintf ''SELECT data FROM %s WHERE key = $1'' [FStr tbl],
       putQuery = Sprintf
         ''INSERT INTO %s (key, data) VALUES ($1, $2) ON CONFLICT (key) DO UPDATE SET data = $2''
         [FStr tbl],
       queryQuery = Sprintf ''SELECT key, data FROM %s'' [FStr tbl],
       prefixQuery = '' WHERE key LIKE '' @ [CHR 0x27] @ ''%s%%'' @ [CHR 0x27] @ '' ORDER BY key'',
       limitQuery = '' LIMIT %d'',
       offsetQuery = '' OFFSET %d'',
       getSizeQuery = Sprintf ''SELECT octet_length(data) FROM %s WHERE key = $1'' [FStr tbl] \<rparr>"

text \<open>\<^verbatim>\<open>sqlite.NewQueries\<close>.\<close>

definition sqlite_NewQueries :: "string \<Rightarrow> Queries" where
  "sqlite_NewQueries tbl =
     \<lparr> deleteQuery = Sprintf ''DELETE FROM %s WHERE key = $1'' [FStr tbl],
       existsQuery = Sprintf ''SELECT exists(SELECT 1 FROM %s WHERE key=$1)'' [FStr tbl],
       getQuery = Sprintf ''SELECT data FROM %s WHERE key = $1'' [FStr tbl],
       putQuery = Sprintf ''INSERT OR REPLACE INTO %s(key, data) VALUES($1, $2)'' [FStr tbl],
       queryQuery = Sprintf ''SELECT key, data FROM %s'' [FStr tbl],
       prefixQuery = '' WHERE key GLOB '' @ [CHR 0x27] @ ''%s*'' @ [CHR 0x27] @ '' ORDER BY key'',
       limitQuery = '' LIMIT %d'',
       offsetQuery = '' OFFSET %d'',
       getSizeQuery = Sprintf ''SELECT length(data) FROM %s WHERE key = $1'' [FStr tbl] \<rparr>"

section \<open>The executor: a reference model of database/sql\<close>

text \<open>
  The executor is \<^verbatim>\<open>database/sql\<close> with the SQL driver and engine, which are external
  to the repository. The model is a reference engine: named tables of (key, data) rows with a unique key, the statements that
  the two dialect providers emit, transactions, and an adversary \<open>fault\<close> that may make any
  call fail (a rejected statement, a constraint violation, lost connectivity). Every call
  that reaches the executor is appended to \<open>log\<close>. The engine understands the statement
  forms of both dialects; which of them a particular product accepts is not modelled.
\<close>

datatype sql_arg = AText string | ABlob bytes

datatype call =
    CPing
  | CClose
  | CExec string "sql_arg list"
  | CQueryRow string "sql_arg list"
  | CQuery string
  | CBegin
  | CTxExec string "sql_arg list"
  | CTxCommit
  | CTxRollback

type_synonym table = "(string \<times> bytes) list"

record sqldb =
  tables :: "string \<rightharpoonup> table"
  closed :: bool
  log :: "call list"
  fault :: "call list \<Rightarrow> call \<Rightarrow> error option"
  rows_affected_err :: "error option"
  scan_fault :: "string \<times> bytes \<Rightarrow> error option"

text \<open>What \<^verbatim>\<open>sql.Result.RowsAffected()\<close> returns.\<close>

type_synonym sql_result = "error + int"

text \<open>The column a single-row query delivers to \<^verbatim>\<open>Row.Scan\<close>.\<close>

datatype cell = VBlob bytes | VInt int | VBool bool

text \<open>
  A \<^verbatim>\<open>*sql.Row\<close>: the error that \<^verbatim>\<open>Scan\<close> will report (\<open>ErrNoRows\<close> when the query
  selected nothing) or the column of the first row.
\<close>

type_synonym sql_row = "error + cell"

text \<open>A \<^verbatim>\<open>*sql.Tx\<close>: the transaction's private view of the tables, and whether it is over.\<close>

record sqltx =
  work :: "string \<rightharpoonup> table"
  tx_done :: bool

subsection \<open>Reading statements\<close>

fun strip_prefix :: "string \<Rightarrow> string \<Rightarrow> string option" where
  "strip_prefix [] s = Some s"
| "strip_prefix (p # ps) [] = None"
| "strip_prefix (p # ps) (c # cs) = (if p = c then strip_prefix ps cs else None)"

definition strip_suffix :: "string \<Rightarrow> string \<Rightarrow> string option" where
  "strip_suffix suf s = map_option rev (strip_prefix (rev suf) (rev s))"

definition between :: "string \<Rightarrow> string \<Rightarrow> string \<Rightarrow> string option" where
  "between pre suf s =
     (case strip_prefix pre s of None \<Rightarrow> None | Some r \<Rightarrow> strip_suffix suf r)"

datatype stmt_kind = SDelete | SExists | SGet | SUpsert | SSize

text \<open>
  The point statements of both dialects, each with the table it names.
\<close>

definition classify :: "string \<Rightarrow> (stmt_kind \<times> string) option" where
  "classify s =
     (case between ''DELETE FROM '' '' WHERE key = $1'' s of
        Some t \<Rightarrow> Some (SDelete, t)
      | None \<Rightarrow>
     (case between ''SELECT exists(SELECT 1 FROM '' '' WHERE key=$1)'' s of
        Some t \<Rightarrow> Some (SExists, t)
      | None \<Rightarrow>
     (case between ''SELECT data FROM '' '' WHERE key = $1'' s of
        Some t \<Rightarrow> Some (SGet, t)
      | None \<Rightarrow>
     (case between ''INSERT INTO ''
             '' (key, data) VALUES ($1, $2) ON CONFLICT (key) DO UPDATE SET data = $2'' s of
        Some t \<Rightarrow> Some (SUpsert, t)
      | None \<Rightarrow>
     (case between ''INSERT OR REPLACE INTO '' ''(key, data) VALUES($1, $2)'' s of
        Some t \<Rightarrow> Some (SUpsert, t)
      | None \<Rightarrow>
     (case between ''SELECT octet_length(data) FROM '' '' WHERE key = $1'' s of
        Some t \<Rightarrow> Some (SSize, t)
      | None \<Rightarrow>
     (case between ''SELECT length(data) FROM '' '' WHERE key = $1'' s of
        Some t \<Rightarrow> Some (SSize, t)
      | None \<Rightarrow> None)))))))"

subsection \<open>Statements on a table\<close>

text \<open>
  A write: the number of rows affected and the new rows. An upsert replaces the data of
  an existing key and otherwise adds a row; a delete of an absent key succeeds on zero rows.
\<close>

definition run_write ::
  "stmt_kind \<Rightarrow> sql_arg list \<Rightarrow> table \<Rightarrow> error + (int \<times> table)" where
  "run_write k args t =
     (case (k, args) of
        (SDelete, [AText key]) \<Rightarrow>
          Inr (int (length (filter (\<lambda>r. fst r = key) t)), AList.delete key t)
      | (SUpsert, [AText key, ABlob v]) \<Rightarrow> Inr (1, AList.update key v t)
      | _ \<Rightarrow> Inl (DriverError ''statement cannot be executed''))"

text \<open>
  A single-row read. The existence statement always selects one row; the others select
  the row of the key, if there is one.
\<close>

definition run_read :: "stmt_kind \<Rightarrow> sql_arg list \<Rightarrow> table \<Rightarrow> sql_row" where
  "run_read k args t =
     (case (k, args) of
        (SGet, [AText key]) \<Rightarrow>
          (case map_of t key of None \<Rightarrow> Inl ErrNoRows | Some v \<Rightarrow> Inr (VBlob v))
      | (SExists, [AText key]) \<Rightarrow> Inr (VBool (map_of t key \<noteq> None))
      | (SSize, [AText key]) \<Rightarrow>
          (case map_of t key of None \<Rightarrow> Inl ErrNoRows | Some v \<Rightarrow> Inr (VInt (int (length v))))
      | _ \<Rightarrow> Inl (DriverError ''statement cannot be queried''))"

text \<open>
  The statement by which the embedded backend makes sure that its table exists, read word
  by word (SQL does not care how the words are spaced), with the table it names.
\<close>

definition is_space :: "char \<Rightarrow> bool" where
  "is_space c = (c = CHR '' '' \<or> c = CHR 0x09 \<or> c = CHR 0x0A \<or> c = CHR 0x0D)"

fun split_when :: "(char \<Rightarrow> bool) \<Rightarrow> string \<Rightarrow> string list" where
  "split_when P [] = [[]]"
| "split_when P (x # xs) =
     (if P x then [] # split_when P xs
      else (case split_when P xs of [] \<Rightarrow> [[x]] | y # ys \<Rightarrow> (x # y) # ys))"

definition sql_words :: "string \<Rightarrow> string list" where
  "sql_words s = filter (\<lambda>w. w \<noteq> []) (split_when is_space s)"

definition create_table_name :: "string \<Rightarrow> string option" where
  "create_table_name stmt =
     (let ws = sql_words stmt in
      if length ws = 16
         \<and> take 5 ws = [''CREATE'', ''TABLE'', ''IF'', ''NOT'', ''EXISTS'']
         \<and> drop 6 ws = [''('', ''key'', ''TEXT'', ''PRIMARY'', ''KEY,'', ''data'', ''BLOB'', '')'',
                         ''WITHOUT'', ''ROWID;'']
      then Some (ws ! 5) else None)"

definition exec_on ::
  "(string \<rightharpoonup> table) \<Rightarrow> string \<Rightarrow> sql_arg list \<Rightarrow> error + (int \<times> (string \<rightharpoonup> table))" where
  "exec_on ts stmt args =
     (case classify stmt of
        None \<Rightarrow>
          (case create_table_name stmt of
             None \<Rightarrow> Inl (DriverError ''syntax error'')
           | Some tn \<Rightarrow>
               if args \<noteq> [] then Inl (DriverError ''statement cannot be executed'')
               else Inr (0, if ts tn = None then ts(tn \<mapsto> []) else ts))
      | Some (k, tn) \<Rightarrow>
          (case ts tn of
             None \<Rightarrow> Inl (DriverError ''no such table'')
           | Some t \<Rightarrow>
               (case run_write k args t of
                  Inl e \<Rightarrow> Inl e
                | Inr (n, t') \<Rightarrow> Inr (n, ts(tn \<mapsto> t')))))"

definition query_row_on :: "(string \<rightharpoonup> table) \<Rightarrow> string \<Rightarrow> sql_arg list \<Rightarrow> sql_row" where
  "query_row_on ts stmt args =
     (case classify stmt of
        None \<Rightarrow> Inl (DriverError ''syntax error'')
      | Some (k, tn) \<Rightarrow>
          (case ts tn of
             None \<Rightarrow> Inl (DriverError ''no such table'')
           | Some t \<Rightarrow> run_read k args t))"

subsection \<open>The bulk select\<close>

text \<open>
  \<^verbatim>\<open>LIKE\<close>: \<^verbatim>\<open>%\<close> matches any sequence of characters, \<^verbatim>\<open>_\<close> any one character, and a
  backslash makes the next character of the pattern literal. A pattern that ends in a lone
  backslash matches nothing.
\<close>

fun like_match :: "string \<Rightarrow> string \<Rightarrow> bool" where
  "like_match [] s = (s = [])"
| "like_match (p # ps) s =
     (if p = CHR ''%'' then
        like_match ps s \<or> (case s of [] \<Rightarrow> False | c # cs \<Rightarrow> like_match (p # ps) cs)
      else if p = CHR ''_'' then
        (case s of [] \<Rightarrow> False | c # cs \<Rightarrow> like_match ps cs)
      else if p = CHR 0x5C then
        (case ps of
           [] \<Rightarrow> False
         | e # ps' \<Rightarrow> (case s of [] \<Rightarrow> False | c # cs \<Rightarrow> c = e \<and> like_match ps' cs))
      else (case s of [] \<Rightarrow> False | c # cs \<Rightarrow> c = p \<and> like_match ps cs))"

text \<open>
  \<^verbatim>\<open>GLOB\<close>: \<^verbatim>\<open>*\<close> matches any sequence of characters, \<^verbatim>\<open>?\<close> any one character, and
  \<^verbatim>\<open>[...]\<close> one character of a set (\<^verbatim>\<open>^\<close> first inverts the set, \<^verbatim>\<open>]\<close> first is a
  member, \<^verbatim>\<open>a-z\<close> is a range). \<open>glob_set c prior seen p\<close> reads the rest \<open>p\<close> of a set for
  the character \<open>c\<close>, and returns whether \<open>c\<close> is a member and what follows the set; a set
  that is never closed matches nothing.
\<close>

fun glob_set :: "char \<Rightarrow> char option \<Rightarrow> bool \<Rightarrow> string \<Rightarrow> (bool \<times> string) option" where
  "glob_set c prior seen [] = None"
| "glob_set c prior seen (x # xs) =
     (if x = CHR '']'' then Some (seen, xs)
      else if x = CHR ''-'' \<and> prior \<noteq> None \<and> xs \<noteq> [] \<and> hd xs \<noteq> CHR '']'' then
        glob_set c None
          (seen \<or> ((of_char (the prior) :: nat) \<le> of_char c
                    \<and> (of_char c :: nat) \<le> of_char (hd xs)))
          (tl xs)
      else glob_set c (Some x) (seen \<or> c = x) xs)"

definition glob_class :: "char \<Rightarrow> string \<Rightarrow> (bool \<times> string) option" where
  "glob_class c p =
     (let invert = (p \<noteq> [] \<and> hd p = CHR ''^'');
          p1 = (if invert then tl p else p);
          r = (if p1 \<noteq> [] \<and> hd p1 = CHR '']'' then glob_set c None (c = CHR '']'') (tl p1)
               else glob_set c None False p1)
      in map_option (\<lambda>(seen, rest). (seen \<noteq> invert, rest)) r)"

lemma glob_set_shorter: "glob_set c prior seen p = Some (b, rest) \<Longrightarrow> length rest < length p"
proof (induction c prior seen p rule: glob_set.induct)
  case (1 c prior seen)
  then show ?case by simp
next
  case (2 c prior seen x xs)
  show ?case
  proof (cases "x = CHR '']''")
    case True
    with "2.prems" show ?thesis by simp
  next
    case False
    show ?thesis
    proof (cases "x = CHR ''-'' \<and> prior \<noteq> None \<and> xs \<noteq> [] \<and> hd xs \<noteq> CHR '']''")
      case True
      with False "2.prems" "2.IH"(1) have "length rest < length (tl xs)" by simp
      then show ?thesis by simp
    next
      case range: False
      with False "2.prems" "2.IH"(2) have "length rest < length xs" by auto
      then show ?thesis by simp
    qed
  qed
qed

lemma glob_class_shorter: "glob_class c p = Some (b, rest) \<Longrightarrow> length rest \<le> length p"
proof -
  assume a: "glob_class c p = Some (b, rest)"
  let ?p1 = "if p \<noteq> [] \<and> hd p = CHR ''^'' then tl p else p"
  have p1: "length ?p1 \<le> length p" by simp
  from a obtain seen where
    "(if ?p1 \<noteq> [] \<and> hd ?p1 = CHR '']'' then glob_set c None (c = CHR '']'') (tl ?p1)
      else glob_set c None False ?p1) = Some (seen, rest)"
    by (auto simp: glob_class_def Let_def simp del: glob_set.simps)
  then have "length rest < length (tl ?p1) \<or> length rest < length ?p1"
    by (auto dest: glob_set_shorter split: if_splits simp del: glob_set.simps)
  then have "length rest \<le> length ?p1"
    by auto
  with p1 show ?thesis by linarith
qed

function glob_match :: "string \<Rightarrow> string \<Rightarrow> bool" where
  "glob_match [] s = (s = [])"
| "glob_match (p # ps) s =
     (if p = CHR ''*'' then
        glob_match ps s \<or> (case s of [] \<Rightarrow> False | c # cs \<Rightarrow> glob_match (p # ps) cs)
      else if p = CHR ''?'' then
        (case s of [] \<Rightarrow> False | c # cs \<Rightarrow> glob_match ps cs)
      else if p = CHR ''['' then
        (case s of
           [] \<Rightarrow> False
         | c # cs \<Rightarrow>
             (case glob_class c ps of
                None \<Rightarrow> False
              | Some (member, rest) \<Rightarrow> member \<and> glob_match rest cs))
      else (case s of [] \<Rightarrow> False | c # cs \<Rightarrow> c = p \<and> glob_match ps cs))"
  by pat_completeness auto
termination
  by (relation "measure (\<lambda>(p, s). length p + length s)")
    (auto dest!: glob_class_shorter)

datatype pattern_op = Like | Glob

definition pattern_match :: "pattern_op \<Rightarrow> string \<Rightarrow> string \<Rightarrow> bool" where
  "pattern_match op pat s = (case op of Like \<Rightarrow> like_match pat s | Glob \<Rightarrow> glob_match pat s)"

text \<open>Reading a decimal integer.\<close>

definition digit_val :: "char \<Rightarrow> nat option" where
  "digit_val c =
     (if (of_char (CHR ''0'') :: nat) \<le> of_char c \<and> (of_char c :: nat) \<le> of_char (CHR ''9'')
      then Some (of_char c - of_char (CHR ''0'')) else None)"

fun read_nat_from :: "nat \<Rightarrow> string \<Rightarrow> nat option" where
  "read_nat_from acc [] = Some acc"
| "read_nat_from acc (c # cs) =
     (case digit_val c of None \<Rightarrow> None | Some d \<Rightarrow> read_nat_from (10 * acc + d) cs)"

definition read_int :: "string \<Rightarrow> int option" where
  "read_int s =
     (case s of
        [] \<Rightarrow> None
      | c # cs \<Rightarrow>
          (if c = CHR ''-'' then
             (if cs = [] then None else map_option (\<lambda>n. - int n) (read_nat_from 0 cs))
           else map_option int (read_nat_from 0 s)))"

text \<open>
  The bulk select as the query composer writes it: the table, then optionally the
  \<^verbatim>\<open>WHERE key LIKE\<close> or \<^verbatim>\<open>WHERE key GLOB\<close> clause with its \<^verbatim>\<open>ORDER BY key\<close>, a
  \<^verbatim>\<open>LIMIT\<close> and an \<^verbatim>\<open>OFFSET\<close>. A string literal ends at the first quote (a doubled
  quote inside a literal is not modelled); a table name ends at the first space.
\<close>

record select_stmt =
  s_table :: string
  s_where :: "(pattern_op \<times> string) option"
  s_limit :: "int option"
  s_offset :: "int option"

definition quote :: char where
  "quote = CHR 0x27"

definition parse_pattern ::
  "pattern_op \<Rightarrow> string \<Rightarrow> string \<Rightarrow> ((pattern_op \<times> string) option \<times> string) option option" where
  "parse_pattern op kw r =
     (case strip_prefix kw r of
        None \<Rightarrow> None
      | Some p \<Rightarrow>
          Some (case strip_prefix (quote # '' ORDER BY key'') (dropWhile (\<lambda>c. c \<noteq> quote) p) of
                  None \<Rightarrow> None
                | Some r' \<Rightarrow> Some (Some (op, takeWhile (\<lambda>c. c \<noteq> quote) p), r')))"

definition parse_where :: "string \<Rightarrow> ((pattern_op \<times> string) option \<times> string) option" where
  "parse_where r =
     (case parse_pattern Like ('' WHERE key LIKE '' @ [quote]) r of
        Some res \<Rightarrow> res
      | None \<Rightarrow>
          (case parse_pattern Glob ('' WHERE key GLOB '' @ [quote]) r of
             Some res \<Rightarrow> res
           | None \<Rightarrow> Some (None, r)))"

definition parse_count :: "string \<Rightarrow> string \<Rightarrow> (int option \<times> string) option" where
  "parse_count kw r =
     (case strip_prefix kw r of
        None \<Rightarrow> Some (None, r)
      | Some p \<Rightarrow>
          (case read_int (takeWhile (\<lambda>c. c \<noteq> CHR '' '') p) of
             None \<Rightarrow> None
           | Some n \<Rightarrow> Some (Some n, dropWhile (\<lambda>c. c \<noteq> CHR '' '') p)))"

definition parse_select :: "string \<Rightarrow> select_stmt option" where
  "parse_select s =
     (case strip_prefix ''SELECT key, data FROM '' s of
        None \<Rightarrow> None
      | Some r0 \<Rightarrow>
          (case parse_where (dropWhile (\<lambda>c. c \<noteq> CHR '' '') r0) of
             None \<Rightarrow> None
           | Some (w, r1) \<Rightarrow>
               (case parse_count '' LIMIT '' r1 of
                  None \<Rightarrow> None
                | Some (l, r2) \<Rightarrow>
                    (case parse_count '' OFFSET '' r2 of
                       None \<Rightarrow> None
                     | Some (off, r3) \<Rightarrow>
                         if r3 = [] then
                           Some \<lparr> s_table = takeWhile (\<lambda>c. c \<noteq> CHR '' '') r0, s_where = w,
                                  s_limit = l, s_offset = off \<rparr>
                         else None))))"

text \<open>
  The rows a bulk select delivers: without a clause all rows as they are stored; with the
  pattern clause the rows whose key matches, ordered by key; then the offset and the limit
  (a negative limit is no limit, a negative offset is none).
\<close>

definition run_select :: "select_stmt \<Rightarrow> table \<Rightarrow> table" where
  "run_select st t =
     (let rows1 = (case s_where st of
                     None \<Rightarrow> t
                   | Some (op, pat) \<Rightarrow> sort_key fst (filter (\<lambda>r. pattern_match op pat (fst r)) t));
          rows2 = (case s_offset st of None \<Rightarrow> rows1 | Some n \<Rightarrow> drop (nat n) rows1)
      in (case s_limit st of
            None \<Rightarrow> rows2
          | Some n \<Rightarrow> if n < 0 then rows2 else take (nat n) rows2))"

definition select_on :: "(string \<rightharpoonup> table) \<Rightarrow> string \<Rightarrow> error + table" where
  "select_on ts stmt =
     (case parse_select stmt of
        None \<Rightarrow> Inl (DriverError ''syntax error'')
      | Some st \<Rightarrow>
          (case ts (s_table st) of
             None \<Rightarrow> Inl (DriverError ''no such table'')
           | Some t \<Rightarrow> Inr (run_select st t)))"

subsection \<open>Calls on the handle\<close>

definition record_call :: "sqldb \<Rightarrow> call \<Rightarrow> sqldb" where
  "record_call db c = db\<lparr>log := log db @ [c]\<rparr>"

definition refuse :: "sqldb \<Rightarrow> call \<Rightarrow> error option" where
  "refuse db c = (if closed db then Some ErrDBClosed else fault db (log db) c)"

definition affected :: "sqldb \<Rightarrow> int \<Rightarrow> sql_result" where
  "affected db n = (case rows_affected_err db of Some e \<Rightarrow> Inl e | None \<Rightarrow> Inr n)"

text \<open>\<^verbatim>\<open>db.Exec(stmt, args...)\<close>\<close>

definition db_Exec :: "string \<Rightarrow> sql_arg list \<Rightarrow> sqldb \<Rightarrow> (error + sql_result) \<times> sqldb" where
  "db_Exec stmt args db =
     (let c = CExec stmt args; db1 = record_call db c in
      case refuse db c of
        Some e \<Rightarrow> (Inl e, db1)
      | None \<Rightarrow>
          (case exec_on (tables db) stmt args of
             Inl e \<Rightarrow> (Inl e, db1)
           | Inr (n, ts) \<Rightarrow> (Inr (affected db n), db1\<lparr>tables := ts\<rparr>)))"

text \<open>\<^verbatim>\<open>db.QueryRow(stmt, args...)\<close>\<close>

definition db_QueryRow :: "string \<Rightarrow> sql_arg list \<Rightarrow> sqldb \<Rightarrow> sql_row \<times> sqldb" where
  "db_QueryRow stmt args db =
     (let c = CQueryRow stmt args; db1 = record_call db c in
      case refuse db c of
        Some e \<Rightarrow> (Inl e, db1)
      | None \<Rightarrow> (query_row_on (tables db) stmt args, db1))"

text \<open>
  \<^verbatim>\<open>db.Query(stmt)\<close> returns a cursor \<^verbatim>\<open>*sql.Rows\<close>: the rows still to be read, each
  as what \<^verbatim>\<open>rows.Scan(&key, &out)\<close> will deliver for it, the key and the data or the error
  of a row that cannot be decoded. \<^verbatim>\<open>rows.Next()\<close> is true while a row is left.
\<close>

type_synonym sql_rows = "(error + string \<times> bytes) list"

definition scan_row :: "sqldb \<Rightarrow> string \<times> bytes \<Rightarrow> error + string \<times> bytes" where
  "scan_row db r = (case scan_fault db r of Some e \<Rightarrow> Inl e | None \<Rightarrow> Inr r)"

definition db_Query :: "string \<Rightarrow> sqldb \<Rightarrow> (error + sql_rows) \<times> sqldb" where
  "db_Query stmt db =
     (let c = CQuery stmt; db1 = record_call db c in
      case refuse db c of
        Some e \<Rightarrow> (Inl e, db1)
      | None \<Rightarrow>
          (case select_on (tables db) stmt of
             Inl e \<Rightarrow> (Inl e, db1)
           | Inr rs \<Rightarrow> (Inr (map (scan_row db) rs), db1)))"

text \<open>\<^verbatim>\<open>db.Ping()\<close> and \<^verbatim>\<open>db.Close()\<close>\<close>

definition db_Ping :: "sqldb \<Rightarrow> error option \<times> sqldb" where
  "db_Ping db = (refuse db CPing, record_call db CPing)"

definition db_Close :: "sqldb \<Rightarrow> error option \<times> sqldb" where
  "db_Close db =
     (if closed db then (None, record_call db CClose)
      else (fault db (log db) CClose, (record_call db CClose)\<lparr>closed := True\<rparr>))"

text \<open>
  \<^verbatim>\<open>Row.Scan\<close> into a \<^verbatim>\<open>[]byte\<close>, a \<^verbatim>\<open>bool\<close> and an \<^verbatim>\<open>int\<close>. Conversions between
  column types are not modelled: a column of another type is a scan error.
\<close>

definition Scan_bytes :: "sql_row \<Rightarrow> error + bytes" where
  "Scan_bytes r =
     (case r of Inl e \<Rightarrow> Inl e | Inr (VBlob b) \<Rightarrow> Inr b
      | Inr _ \<Rightarrow> Inl (DriverError ''unsupported Scan''))"

definition Scan_bool :: "sql_row \<Rightarrow> error + bool" where
  "Scan_bool r =
     (case r of Inl e \<Rightarrow> Inl e | Inr (VBool b) \<Rightarrow> Inr b
      | Inr _ \<Rightarrow> Inl (DriverError ''unsupported Scan''))"

definition Scan_int :: "sql_row \<Rightarrow> error + int" where
  "Scan_int r =
     (case r of Inl e \<Rightarrow> Inl e | Inr (VInt n) \<Rightarrow> Inr n
      | Inr _ \<Rightarrow> Inl (DriverError ''unsupported Scan''))"

subsection \<open>Transactions\<close>

text \<open>
  \<^verbatim>\<open>db.Begin()\<close> returns a transaction or an error (and then no transaction). The
  transaction works on its own view; \<open>Commit\<close> publishes the view, \<open>Rollback\<close> drops it.
  As in database/sql, a transaction is over after the first \<open>Commit\<close> or \<open>Rollback\<close>,
  whether that call succeeded or not, and every later call on it returns \<open>ErrTxDone\<close>.
\<close>

definition db_Begin :: "sqldb \<Rightarrow> (sqltx option \<times> error option) \<times> sqldb" where
  "db_Begin db =
     (case refuse db CBegin of
        Some e \<Rightarrow> ((None, Some e), record_call db CBegin)
      | None \<Rightarrow> ((Some \<lparr>work = tables db, tx_done = False\<rparr>, None), record_call db CBegin))"

definition tx_Exec ::
  "string \<Rightarrow> sql_arg list \<Rightarrow> sqltx \<Rightarrow> sqldb \<Rightarrow> (error + sql_result) \<times> sqltx \<times> sqldb" where
  "tx_Exec stmt args tx db =
     (let c = CTxExec stmt args; db1 = record_call db c in
      if tx_done tx then (Inl ErrTxDone, tx, db1)
      else
        (case refuse db c of
           Some e \<Rightarrow> (Inl e, tx, db1)
         | None \<Rightarrow>
             (case exec_on (work tx) stmt args of
                Inl e \<Rightarrow> (Inl e, tx, db1)
              | Inr (n, ts) \<Rightarrow> (Inr (affected db n), tx\<lparr>work := ts\<rparr>, db1))))"

definition tx_Commit :: "sqltx \<Rightarrow> sqldb \<Rightarrow> error option \<times> sqltx \<times> sqldb" where
  "tx_Commit tx db =
     (let db1 = record_call db CTxCommit in
      if tx_done tx then (Some ErrTxDone, tx, db1)
      else
        (case refuse db CTxCommit of
           Some e \<Rightarrow> (Some e, tx\<lparr>tx_done := True\<rparr>, db1)
         | None \<Rightarrow> (None, tx\<lparr>tx_done := True\<rparr>, db1\<lparr>tables := work tx\<rparr>)))"

definition tx_Rollback :: "sqltx \<Rightarrow> sqldb \<Rightarrow> error option \<times> sqltx \<times> sqldb" where
  "tx_Rollback tx db =
     (let db1 = record_call db CTxRollback in
      if tx_done tx then (Some ErrTxDone, tx, db1)
      else (refuse db CTxRollback, tx\<lparr>tx_done := True\<rparr>, db1))"

section \<open>The datastore\<close>

text \<open>
  \<^verbatim>\<open>Datastore{db, queries}\<close>. The handle \<^verbatim>\<open>db *sql.DB\<close> points to the database shared
  with every batch of the datastore; its state is the \<open>sqldb\<close> that every operation takes
  and returns, so the record keeps the statement set only.
\<close>

record Datastore =
  queries :: Queries

definition NewDatastore :: "Queries \<Rightarrow> Datastore" where
  "NewDatastore qs = \<lparr>queries = qs\<rparr>"

definition Datastore_Close :: "Datastore \<Rightarrow> sqldb \<Rightarrow> error option \<times> sqldb" where
  "Datastore_Close d db = db_Close db"

definition Datastore_Delete :: "Datastore \<Rightarrow> Key \<Rightarrow> sqldb \<Rightarrow> error option \<times> sqldb" where
  "Datastore_Delete d key db =
     (case db_Exec (deleteQuery (queries d)) [AText key] db of
        (Inl err, db1) \<Rightarrow> (Some err, db1)
      | (Inr result, db1) \<Rightarrow>
          (case result of
             Inl err \<Rightarrow> (Some err, db1)
           | Inr rows \<Rightarrow> if rows = 0 then (Some ErrNotFound, db1) else (None, db1)))"

definition Datastore_Get :: "Datastore \<Rightarrow> Key \<Rightarrow> sqldb \<Rightarrow> (error + bytes) \<times> sqldb" where
  "Datastore_Get d key db =
     (case db_QueryRow (getQuery (queries d)) [AText key] db of
        (row, db1) \<Rightarrow>
          (case Scan_bytes row of
             Inl err \<Rightarrow> if err = ErrNoRows then (Inl ErrNotFound, db1) else (Inl err, db1)
           | Inr out \<Rightarrow> (Inr out, db1)))"

text \<open>
  \<open>Has\<close> returns the pair \<^verbatim>\<open>(exists, err)\<close>; when \<open>Scan\<close> fails the named result
  \<^verbatim>\<open>exists\<close> still has its zero value.
\<close>

definition Datastore_Has :: "Datastore \<Rightarrow> Key \<Rightarrow> sqldb \<Rightarrow> (bool \<times> error option) \<times> sqldb" where
  "Datastore_Has d key db =
     (case db_QueryRow (existsQuery (queries d)) [AText key] db of
        (row, db1) \<Rightarrow>
          (case Scan_bool row of
             Inl err \<Rightarrow> if err = ErrNoRows then ((False, None), db1) else ((False, Some err), db1)
           | Inr exists \<Rightarrow> ((exists, None), db1)))"

definition Datastore_Put :: "Datastore \<Rightarrow> Key \<Rightarrow> bytes \<Rightarrow> sqldb \<Rightarrow> error option \<times> sqldb" where
  "Datastore_Put d key val db =
     (case db_Exec (putQuery (queries d)) [AText key, ABlob val] db of
        (Inl err, db1) \<Rightarrow> (Some err, db1)
      | (Inr _, db1) \<Rightarrow> (None, db1))"

definition Datastore_Sync :: "Datastore \<Rightarrow> Key \<Rightarrow> sqldb \<Rightarrow> error option \<times> sqldb" where
  "Datastore_Sync d key db = (None, db)"

text \<open>\<open>GetSize\<close> returns the pair \<^verbatim>\<open>(size, err)\<close>.\<close>

definition Datastore_GetSize :: "Datastore \<Rightarrow> Key \<Rightarrow> sqldb \<Rightarrow> (int \<times> error option) \<times> sqldb" where
  "Datastore_GetSize d key db =
     (case db_QueryRow (getSizeQuery (queries d)) [AText key] db of
        (row, db1) \<Rightarrow>
          (case Scan_int row of
             Inl err \<Rightarrow>
               if err = ErrNoRows then ((- 1, Some ErrNotFound), db1) else ((0, Some err), db1)
           | Inr sz \<Rightarrow> ((sz, None), db1)))"

section \<open>Batches\<close>

text \<open>
  \<^verbatim>\<open>batch{db, queries, txn}\<close>: \<open>txn\<close> is \<open>None\<close> for the nil pointer, and otherwise holds
  the state of the transaction object the pointer refers to, which the batch alone owns.
\<close>

record batch =
  b_queries :: Queries
  txn :: "sqltx option"

definition Datastore_Batch :: "Datastore \<Rightarrow> batch \<times> error option" where
  "Datastore_Batch d = (\<lparr>b_queries = queries d, txn = None\<rparr>, None)"

text \<open>
  \<open>GetTransaction\<close> returns the pair \<^verbatim>\<open>(*sql.Tx, error)\<close>. A transaction it returns is
  the one \<open>txn\<close> points to.
\<close>

definition batch_GetTransaction ::
  "batch \<Rightarrow> sqldb \<Rightarrow> (sqltx option \<times> error option) \<times> batch \<times> sqldb" where
  "batch_GetTransaction b db =
     (case txn b of
        Some t \<Rightarrow> ((Some t, None), b, db)
      | None \<Rightarrow>
          (case db_Begin db of
             ((newTransaction, Some err), db1) \<Rightarrow>
               (case newTransaction of
                  Some t \<Rightarrow> ((None, Some err), b, snd (snd (tx_Rollback t db1)))
                | None \<Rightarrow> ((None, Some err), b, db1))
           | ((newTransaction, None), db1) \<Rightarrow>
               ((newTransaction, None), b\<lparr>txn := newTransaction\<rparr>, db1)))"

text \<open>
  \<^verbatim>\<open>b.txn.Rollback()\<close> with its result dropped. Through a nil \<open>txn\<close> the call
  dereferences nil.
\<close>

definition batch_rollback :: "batch \<Rightarrow> sqldb \<Rightarrow> (batch \<times> sqldb) go" where
  "batch_rollback b db =
     (case txn b of
        None \<Rightarrow> Panic NilDeref
      | Some t \<Rightarrow>
          (case tx_Rollback t db of (_, t', db1) \<Rightarrow> Return (b\<lparr>txn := Some t'\<rparr>, db1)))"

text \<open>
  The common body of \<open>Put\<close> and \<open>Delete\<close>, which differ in the statement and its
  arguments only.
\<close>

definition batch_exec ::
  "string \<Rightarrow> sql_arg list \<Rightarrow> batch \<Rightarrow> sqldb \<Rightarrow> (error option \<times> batch \<times> sqldb) go" where
  "batch_exec stmt args b db =
     (case batch_GetTransaction b db of
        ((_, Some err), b1, db1) \<Rightarrow>
          (case batch_rollback b1 db1 of
             Panic p \<Rightarrow> Panic p
           | Return (b2, db2) \<Rightarrow> Return (Some err, b2, db2))
      | ((None, None), b1, db1) \<Rightarrow> Panic NilDeref
      | ((Some t, None), b1, db1) \<Rightarrow>
          (case tx_Exec stmt args t db1 of
             (Inl err, t', db2) \<Rightarrow>
               (case batch_rollback (b1\<lparr>txn := Some t'\<rparr>) db2 of
                  Panic p \<Rightarrow> Panic p
                | Return (b2, db3) \<Rightarrow> Return (Some err, b2, db3))
           | (Inr _, t', db2) \<Rightarrow> Return (None, b1\<lparr>txn := Some t'\<rparr>, db2)))"


definition batch_Delete ::
  "batch \<Rightarrow> Key \<Rightarrow> sqldb \<Rightarrow> (error option \<times> batch \<times> sqldb) go" where
  "batch_Delete b key db = batch_exec (deleteQuery (b_queries b)) [AText key] b db"

definition batch_Commit :: "batch \<Rightarrow> sqldb \<Rightarrow> error option \<times> batch \<times> sqldb" where
  "batch_Commit b db =
     (case txn b of
        None \<Rightarrow> (Some (ErrorString ''no transaction started, cannot commit''), b, db)
      | Some t \<Rightarrow>
          (case tx_Commit t db of
             (Some err, t', db1) \<Rightarrow>
               (case tx_Rollback t' db1 of
                  (_, t'', db2) \<Rightarrow> (Some err, b\<lparr>txn := Some t''\<rparr>, db2))
           | (None, t', db1) \<Rightarrow> (None, b\<lparr>txn := Some t'\<rparr>, db1)))"

section \<open>Constructors of the two backends\<close>

text \<open>
  \<^verbatim>\<open>sql.Open(driverName, dataSourceName)\<close> is a parameter \<open>sql_Open\<close> of both
  constructors: it returns a handle or an error, and it need not have connected to the
  database for the handle it returns. Both \<open>Create\<close> methods also write the defaults into
  the options they are called on; \<open>setDefaults\<close> gives that value.
\<close>

type_synonym opener = "string \<Rightarrow> string \<Rightarrow> error + sqldb"

record postgres_Options =
  Host :: string
  Port :: string
  User :: string
  Password :: string
  Database :: string
  Table :: string

definition postgres_setDefaults :: "postgres_Options \<Rightarrow> postgres_Options" where
  "postgres_setDefaults opts =
     (let opts = (if Host opts = [] then opts\<lparr>Host := ''127.0.0.1''\<rparr> else opts);
          opts = (if Port opts = [] then opts\<lparr>Port := ''5432''\<rparr> else opts);
          opts = (if User opts = [] then opts\<lparr>User := ''postgres''\<rparr> else opts);
          opts = (if Database opts = [] then opts\<lparr>Database := ''datastore''\<rparr> else opts)
      in if postgres_Options.Table opts = [] then opts\<lparr>postgres_Options.Table := ''blocks''\<rparr>
         else opts)"

definition postgres_Create :: "opener \<Rightarrow> postgres_Options \<Rightarrow> error + Datastore \<times> sqldb" where
  "postgres_Create sql_Open opts0 =
     (let opts = postgres_setDefaults opts0;
          fmtstr = ''postgresql:///%s?host=%s&port=%s&user=%s&password=%s&sslmode=disable'';
          constr = Sprintf fmtstr
                     [FStr (Database opts), FStr (Host opts), FStr (Port opts), FStr (User opts),
                      FStr (Password opts)]
      in case sql_Open ''postgres'' constr of
           Inl err \<Rightarrow> Inl err
         | Inr db \<Rightarrow> Inr (NewDatastore (postgres_NewQueries (postgres_Options.Table opts)), db))"

record sqlite_Options =
  Driver :: string
  DSN :: string
  Table :: string
  NoCreate :: bool
  Key :: bytes
  CipherPageSize :: nat

definition sqlite_setDefaults :: "sqlite_Options \<Rightarrow> sqlite_Options" where
  "sqlite_setDefaults opts =
     (let opts = (if Driver opts = [] then opts\<lparr>Driver := ''sqlite3''\<rparr> else opts);
          opts = (if DSN opts = [] then opts\<lparr>DSN := '':memory:''\<rparr> else opts);
          opts = (if length (sqlite_Options.Key opts) \<noteq> 0 \<and> CipherPageSize opts = 0
                  then opts\<lparr>CipherPageSize := 4096\<rparr> else opts)
      in if sqlite_Options.Table opts = [] then opts\<lparr>sqlite_Options.Table := ''blocks''\<rparr>
         else opts)"

text \<open>\<^verbatim>\<open>hex.EncodeToString\<close>.\<close>

definition hex_digit :: "nat \<Rightarrow> char" where
  "hex_digit n = ''0123456789abcdef'' ! (n mod 16)"

definition hex_EncodeToString :: "bytes \<Rightarrow> string" where
  "hex_EncodeToString bs = concat (map (\<lambda>b. [hex_digit (unat b div 16), hex_digit (unat b)]) bs)"

text \<open>The template of the statement that creates the table, with its line breaks and tabs.\<close>

definition create_table_template :: string where
  "create_table_template =
     [CHR 0x0A, CHR 0x09, CHR 0x09, CHR 0x09] @ ''CREATE TABLE IF NOT EXISTS %s (''
     @ [CHR 0x0A, CHR 0x09, CHR 0x09, CHR 0x09, CHR 0x09] @ ''key TEXT PRIMARY KEY,''
     @ [CHR 0x0A, CHR 0x09, CHR 0x09, CHR 0x09, CHR 0x09] @ ''data BLOB''
     @ [CHR 0x0A, CHR 0x09, CHR 0x09, CHR 0x09] @ '') WITHOUT ROWID;''
     @ [CHR 0x0A, CHR 0x09, CHR 0x09]"

definition sqlite_Create :: "opener \<Rightarrow> sqlite_Options \<Rightarrow> error + Datastore \<times> sqldb" where
  "sqlite_Create sql_Open opts0 =
     (let opts = sqlite_setDefaults opts0;
          key = sqlite_Options.Key opts
      in if length key \<noteq> 0 \<and> length key \<noteq> 32 then
           Inl (ErrorString (Sprintf ''bad key length, expected 32 bytes, got %d''
                  [FInt (int (length key))]))
         else
           (let args =
                  (if length key \<noteq> 0 then
                     [Sprintf (''_pragma_key=x'' @ [CHR 0x27] @ ''%s'' @ [CHR 0x27])
                        [FStr (hex_EncodeToString key)],
                      Sprintf ''_pragma_cipher_page_size=%d'' [FInt (int (CipherPageSize opts))]]
                   else []);
                dsn =
                  (if length args \<noteq> 0 then
                     DSN opts @ (if CHR ''?'' \<in> set (DSN opts) then ''&'' else ''?'')
                       @ fmt_join ''&'' args
                   else DSN opts)
            in case sql_Open (Driver opts) dsn of
                 Inl err \<Rightarrow> Inl (Wrap err ''failed to open database'')
               | Inr db \<Rightarrow>
                   (case db_Ping db of
                      (Some err, db1) \<Rightarrow>
                        (case db_Close db1 of
                           (_, db2) \<Rightarrow> Inl (Wrap err ''failed to ping database''))
                    | (None, db1) \<Rightarrow>
                        if \<not> NoCreate opts then
                          (case db_Exec
                                  (Sprintf create_table_template
                                     [FStr (sqlite_Options.Table opts)]) [] db1 of
                             (Inl err, db2) \<Rightarrow>
                               (case db_Close db2 of
                                  (_, db3) \<Rightarrow> Inl (Wrap err ''failed to ensure table exists''))
                           | (Inr _, db2) \<Rightarrow>
                               Inr (NewDatastore (sqlite_NewQueries (sqlite_Options.Table opts)),
                                    db2))
                        else
                          Inr (NewDatastore (sqlite_NewQueries (sqlite_Options.Table opts)),
                               db1))))"

section \<open>Keys, queries and results of go-datastore\<close>

text \<open>
  The canonical form of a key (leading slash, no trailing slash except for the root) is
  computed by \<^verbatim>\<open>ds.NewKey\<close> of go-datastore, a library outside the repository.
  \<^verbatim>\<open>ds.NewKey(s)\<close> cleans its argument: the empty string is the root \<^verbatim>\<open>/\<close>, and any
  other string is made rooted and passed through \<^verbatim>\<open>path.Clean\<close>, which drops empty and
  \<^verbatim>\<open>.\<close> elements, resolves \<^verbatim>\<open>..\<close> against the element before it (and drops it at the
  root), and joins what is left with single slashes.
\<close>

fun split_on :: "char \<Rightarrow> string \<Rightarrow> string list" where
  "split_on sep [] = [[]]"
| "split_on sep (x # xs) =
     (if x = sep then [] # split_on sep xs
      else (case split_on sep xs of [] \<Rightarrow> [[x]] | y # ys \<Rightarrow> (x # y) # ys))"

fun clean_elems :: "bool \<Rightarrow> string list \<Rightarrow> string list \<Rightarrow> string list" where
  "clean_elems rooted acc [] = rev acc"
| "clean_elems rooted acc (e # es) =
     (if e = [] \<or> e = ''.'' then clean_elems rooted acc es
      else if e = ''..'' then
        (case acc of
           [] \<Rightarrow> if rooted then clean_elems rooted [] es else clean_elems rooted [''..''] es
         | a # acc' \<Rightarrow>
             if a = ''..'' then clean_elems rooted (''..'' # acc) es
             else clean_elems rooted acc' es)
      else clean_elems rooted (e # acc) es)"

definition path_Clean :: "string \<Rightarrow> string" where
  "path_Clean p =
     (if p = [] then ''.''
      else
        (let rooted = (hd p = CHR ''/'');
             body = fmt_join ''/'' (clean_elems rooted [] (split_on (CHR ''/'') p))
         in if rooted then CHR ''/'' # body else if body = [] then ''.'' else body))"

definition NewKey :: "string \<Rightarrow> Key" where
  "NewKey s =
     (if s = [] then ''/''
      else if hd s = CHR ''/'' then path_Clean s
      else path_Clean (CHR ''/'' # s))"

text \<open>
  The types of go-datastore that the datastore uses: \<^verbatim>\<open>dsq.Query\<close>, \<^verbatim>\<open>dsq.Entry\<close> and
  \<^verbatim>\<open>dsq.Result\<close> (the expiration, which this datastore never sets, is
  left out). A \<^verbatim>\<open>dsq.Filter\<close> is its method \<^verbatim>\<open>Filter(e Entry) bool\<close>, a \<^verbatim>\<open>dsq.Order\<close>
  its method \<^verbatim>\<open>Compare(a, b Entry) int\<close>.
\<close>

record Entry =
  Key :: string
  Value :: bytes
  Size :: int

record Result =
  Entry :: Entry
  Error :: "error option"

type_synonym Filter = "Entry \<Rightarrow> bool"
type_synonym Order = "Entry \<Rightarrow> Entry \<Rightarrow> int"

record Query =
  Prefix :: string
  Filters :: "Filter list"
  Orders :: "Order list"
  Limit :: int
  Offset :: int
  KeysOnly :: bool
  ReturnsSizes :: bool

text \<open>The zero values \<^verbatim>\<open>dsq.Entry{}\<close> and \<^verbatim>\<open>dsq.Result{}\<close>.\<close>

definition zero_Entry :: Entry where
  "zero_Entry = \<lparr>Key = [], Value = [], Size = 0\<rparr>"

definition zero_Result :: Result where
  "zero_Result = \<lparr>Entry = zero_Entry, Error = None\<rparr>"

text \<open>
  The post-processing functions are go-datastore's, too. A \<^verbatim>\<open>dsq.Results\<close> is modelled
  by the list of the results it yields. The functions on such lists: \<open>NaiveFilter\<close> keeps errors and the entries that
  pass the filter; \<open>NaiveOrder\<close> without orders is the identity, and otherwise passes the
  errors on and then yields the entries sorted by \<^verbatim>\<open>dsq.Less\<close>, which compares by each order
  in turn and at last by key; \<open>NaiveOffset\<close> skips entries, and yields an error it meets
  while skipping; \<open>NaiveLimit\<close> with limit 0 is the identity (as is a negative limit, which
  never counts down to 0) and cuts the list otherwise. Closing the cursor is taken to
  succeed.
\<close>

definition NaiveFilter :: "Result list \<Rightarrow> Filter \<Rightarrow> Result list" where
  "NaiveFilter qr f = filter (\<lambda>r. Error r \<noteq> None \<or> f (Entry r)) qr"

fun Less :: "Order list \<Rightarrow> Entry \<Rightarrow> Entry \<Rightarrow> bool" where
  "Less [] a b = (Key a < Key b)"
| "Less (cmp # orders) a b =
     (if cmp a b = 0 then Less orders a b
      else if cmp a b = - 1 then True
      else if cmp a b = 1 then False
      else Less orders a b)"

fun insert_by :: "('a \<Rightarrow> 'a \<Rightarrow> bool) \<Rightarrow> 'a \<Rightarrow> 'a list \<Rightarrow> 'a list" where
  "insert_by lt x [] = [x]"
| "insert_by lt x (y # ys) = (if lt x y then x # y # ys else y # insert_by lt x ys)"

definition sort_by :: "('a \<Rightarrow> 'a \<Rightarrow> bool) \<Rightarrow> 'a list \<Rightarrow> 'a list" where
  "sort_by lt xs = foldr (insert_by lt) xs []"

definition NaiveOrder :: "Result list \<Rightarrow> Order list \<Rightarrow> Result list" where
  "NaiveOrder qr orders =
     (if orders = [] then qr
      else map (\<lambda>r. \<lparr>Entry = zero_Entry, Error = Error r\<rparr>) (filter (\<lambda>r. Error r \<noteq> None) qr)
         @ map (\<lambda>e. \<lparr>Entry = e, Error = None\<rparr>)
             (sort_by (Less orders) (map Entry (filter (\<lambda>r. Error r = None) qr))))"

fun NaiveOffset :: "Result list \<Rightarrow> int \<Rightarrow> Result list" where
  "NaiveOffset [] offset = []"
| "NaiveOffset (r # qr) offset =
     (if offset \<le> 0 then r # qr
      else if Error r \<noteq> None then r # NaiveOffset qr offset
      else NaiveOffset qr (offset - 1))"

definition NaiveLimit :: "Result list \<Rightarrow> int \<Rightarrow> Result list" where
  "NaiveLimit qr limit = (if limit \<le> 0 then qr else take (nat limit) qr)"

section \<open>Queries\<close>

text \<open>
  The statement that \<open>QueryWithParams\<close> composes (its variable \<^verbatim>\<open>qNew\<close>), and the call
  itself.
\<close>

definition QueryWithParams_sql :: "Queries \<Rightarrow> Query \<Rightarrow> string" where
  "QueryWithParams_sql qs q =
     (let qNew = queryQuery qs;
          qNew =
            (if Prefix q \<noteq> [] then
               (let prefix = NewKey (Prefix q) in
                if prefix \<noteq> ''/'' then qNew @ Sprintf (prefixQuery qs) [FStr (prefix @ ''/'')]
                else qNew)
             else qNew)
      in if Filters q = [] \<and> Orders q = [] then
           (let qNew = (if Limit q \<noteq> 0 then qNew @ Sprintf (limitQuery qs) [FInt (Limit q)]
                        else qNew)
            in if Offset q \<noteq> 0 then qNew @ Sprintf (offsetQuery qs) [FInt (Offset q)]
               else qNew)
         else qNew)"

definition QueryWithParams :: "Datastore \<Rightarrow> Query \<Rightarrow> sqldb \<Rightarrow> (error + sql_rows) \<times> sqldb" where
  "QueryWithParams d q db = db_Query (QueryWithParams_sql (queries d) q) db"

text \<open>
  The \<^verbatim>\<open>Next\<close> closure of \<open>RawQuery\<close>, on the cursor: the pair \<^verbatim>\<open>(dsq.Result, bool)\<close> it
  returns and the rows left.
\<close>

definition RawQuery_Next :: "Query \<Rightarrow> sql_rows \<Rightarrow> (Result \<times> bool) \<times> sql_rows" where
  "RawQuery_Next q rows =
     (case rows of
        [] \<Rightarrow> ((zero_Result, False), [])
      | row # rest \<Rightarrow>
          (case row of
             Inl err \<Rightarrow> ((\<lparr>Entry = zero_Entry, Error = Some err\<rparr>, False), rest)
           | Inr (key, out) \<Rightarrow>
               (let entry = \<lparr>Key = key, Value = [], Size = 0\<rparr>;
                    entry = (if \<not> KeysOnly q then entry\<lparr>Value := out\<rparr> else entry);
                    entry = (if ReturnsSizes q then entry\<lparr>Size := int (length out)\<rparr> else entry)
                in ((\<lparr>Entry = entry, Error = None\<rparr>, True), rest))))"

text \<open>
  \<^verbatim>\<open>dsq.ResultsFromIterator\<close> of go-datastore (outside the repository) wraps the iterator;
  the function below gives the results that a consumer of the wrapped iterator is given. The
  second component of what \<^verbatim>\<open>Next\<close> returns says whether the first is a result: after
  the last row the closure returns the zero \<^verbatim>\<open>dsq.Result{}\<close> with \<^verbatim>\<open>false\<close>, and the
  consumers of go-datastore (\<^verbatim>\<open>NextSync\<close> loops, \<^verbatim>\<open>Rest\<close>, the channel of \<^verbatim>\<open>Next\<close>, the
  naive post-processing) end the sequence at the first \<^verbatim>\<open>false\<close> without yielding what
  came with it.
\<close>

function ResultsFromIterator :: "Query \<Rightarrow> sql_rows \<Rightarrow> Result list" where
  "ResultsFromIterator q rows =
     (case RawQuery_Next q rows of
        ((r, True), rest) \<Rightarrow> r # ResultsFromIterator q rest
      | ((r, False), rest) \<Rightarrow> [])"
  by pat_completeness auto
termination
  by (relation "measure (\<lambda>(q, rows). length rows)")
    (auto simp: RawQuery_Next_def Let_def split: list.splits sum.splits prod.splits)

declare ResultsFromIterator.simps [simp del]

text \<open>The result that \<open>Next\<close> builds for a row that \<open>Scan\<close> can decode.\<close>

definition result_of :: "Query \<Rightarrow> string \<times> bytes \<Rightarrow> Result" where
  "result_of q r = fst (fst (RawQuery_Next q [Inr r]))"

definition RawQuery :: "Datastore \<Rightarrow> Query \<Rightarrow> sqldb \<Rightarrow> (error + Result list) \<times> sqldb" where
  "RawQuery d q db =
     (case QueryWithParams d q db of
        (Inl err, db1) \<Rightarrow> (Inl err, db1)
      | (Inr rows, db1) \<Rightarrow> (Inr (ResultsFromIterator q rows), db1))"

definition Datastore_Query :: "Datastore \<Rightarrow> Query \<Rightarrow> sqldb \<Rightarrow> (error + Result list) \<times> sqldb" where
  "Datastore_Query d q db =
     (case RawQuery d q db of
        (Inl err, db1) \<Rightarrow> (Inl err, db1)
      | (Inr raw, db1) \<Rightarrow>
          (let raw = foldl NaiveFilter raw (Filters q);
               raw = NaiveOrder raw (Orders q);
               raw =
                 (if Filters q \<noteq> [] \<or> Orders q \<noteq> [] then
                    (let raw = (if Offset q \<noteq> 0 then NaiveOffset raw (Offset q) else raw)
                     in if Limit q \<noteq> 0 then NaiveLimit raw (Limit q) else raw)
                  else raw)
           in (Inr raw, db1)))"

section \<open>Key paths and patterns\<close>

text \<open>
  A key is strictly below the path \<open>p\<close> when it starts with \<open>p\<close> and a separator. A
  character is special when the pattern language of the operator or the string literal
  around the pattern gives it a meaning of its own; a plain string has no special
  character.
\<close>

definition key_below :: "string \<Rightarrow> string \<Rightarrow> bool" where
  "key_below p k = (strip_prefix (p @ ''/'') k \<noteq> None)"

definition special :: "pattern_op \<Rightarrow> char \<Rightarrow> bool" where
  "special op c =
     (c = quote \<or>
      (case op of
         Like \<Rightarrow> c = CHR ''%'' \<or> c = CHR ''_'' \<or> c = CHR 0x5C
       | Glob \<Rightarrow> c = CHR ''*'' \<or> c = CHR ''?'' \<or> c = CHR ''[''))"

definition plain :: "pattern_op \<Rightarrow> string \<Rightarrow> bool" where
  "plain op p = list_all (\<lambda>c. \<not> special op c) p"

section \<open>Callers\<close>






text \<open>The transaction of a batch has been committed or rolled back.\<close>

definition tx_over :: "batch \<Rightarrow> bool" where
  "tx_over b = (case txn b of None \<Rightarrow> False | Some t \<Rightarrow> tx_done t)"


text \<open>
  A caller that issues a sequence of \<open>Put\<close> and \<open>Delete\<close> calls on the datastore, going on
  whatever they return; \<open>puts k x\<close> says that the call \<open>x\<close> writes a value under \<open>k\<close>.
\<close>

datatype ds_op = DPut Key bytes | DDelete Key

definition ds_do :: "Datastore \<Rightarrow> ds_op \<Rightarrow> sqldb \<Rightarrow> sqldb" where
  "ds_do d x db =
     (case x of
        DPut k v \<Rightarrow> snd (Datastore_Put d k v db)
      | DDelete k \<Rightarrow> snd (Datastore_Delete d k db))"

definition ds_run :: "Datastore \<Rightarrow> ds_op list \<Rightarrow> sqldb \<Rightarrow> sqldb" where
  "ds_run d xs db = fold (ds_do d) xs db"

definition puts :: "Key \<Rightarrow> ds_op \<Rightarrow> bool" where
  "puts k x = (case x of DPut k' v \<Rightarrow> k' = k | DDelete k' \<Rightarrow> False)"

section \<open>Example states\<close>

text \<open>
  A reachable database with the default table \<^verbatim>\<open>blocks\<close> holding one row, and the same
  database behind a connection that refuses every call.
\<close>

definition example_db :: sqldb where
  "example_db =
     \<lparr> tables = [''blocks'' \<mapsto> [(''/b'', [7, 8])]],
       closed = False,
       log = [],
       fault = (\<lambda>_ _. None),
       rows_affected_err = None,
       scan_fault = (\<lambda>_. None) \<rparr>"

definition refusing_db :: sqldb where
  "refusing_db = example_db\<lparr>fault := (\<lambda>_ _. Some (DriverError ''connection refused''))\<rparr>"

text \<open>The example database behind a driver that cannot count the rows affected.\<close>

definition uncounted_db :: sqldb where
  "uncounted_db =
     example_db\<lparr>rows_affected_err := Some (DriverError ''RowsAffected not supported'')\<rparr>"

text \<open>The example database when its executor rejects every statement that deletes.\<close>

definition no_delete_db :: sqldb where
  "no_delete_db =
     example_db\<lparr>fault :=
       (\<lambda>_ c. case c of
          CTxExec stmt args \<Rightarrow>
            (case strip_prefix ''DELETE'' stmt of
               Some _ \<Rightarrow> Some (DriverError ''permission denied'')
             | None \<Rightarrow> None)
        | _ \<Rightarrow> None)\<rparr>"

text \<open>
  A database whose table holds six rows, stored in no particular order, and the same
  database when the row of key \<^verbatim>\<open>/x\<close> cannot be decoded by \<open>Scan\<close>.
\<close>

definition keys_db :: sqldb where
  "keys_db =
     example_db\<lparr>tables :=
       [''blocks'' \<mapsto>
          [(''/c/1'', [3]), (''/a/2'', [2]), (''/x'', [9]), (''/ab/1'', [4]), (''/a/1'', [1]),
           (''/b/1'', [5])]]\<rparr>"

definition undecodable_db :: sqldb where
  "undecodable_db =
     keys_db\<lparr>scan_fault :=
       (\<lambda>r. if fst r = ''/x'' then Some (DriverError ''unsupported Scan'') else None)\<rparr>"

text \<open>
  Example queries: all keys below a prefix, and a query with a filter (every key but
  \<^verbatim>\<open>/x\<close>), an order (by key, descending), an offset and a limit.
\<close>

definition prefix_query :: "string \<Rightarrow> Query" where
  "prefix_query p =
     \<lparr> Prefix = p, Filters = [], Orders = [], Limit = 0, Offset = 0,
       KeysOnly = False, ReturnsSizes = True \<rparr>"

definition window_query :: Query where
  "window_query =
     \<lparr> Prefix = [],
       Filters = [\<lambda>e. Key e \<noteq> ''/x''],
       Orders = [\<lambda>a b. if Key b < Key a then - 1 else if Key a < Key b then 1 else 0],
       Limit = 1, Offset = 1, KeysOnly = False, ReturnsSizes = False \<rparr>"

text \<open>
  A driver registry whose \<open>Open\<close> accepts every data source name and hands out a handle
  to a database that nothing can reach, and one that hands out a new, empty database.
\<close>

definition open_unreachable :: opener where
  "open_unreachable driverName dsn = Inr (refusing_db\<lparr>tables := Map.empty\<rparr>)"

definition open_empty :: opener where
  "open_empty driverName dsn = Inr (example_db\<lparr>tables := Map.empty\<rparr>)"

text \<open>Options on which nothing is set.\<close>

definition postgres_zero_Options :: postgres_Options where
  "postgres_zero_Options =
     \<lparr>Host = [], Port = [], User = [], Password = [], Database = [], Table = []\<rparr>"

definition sqlite_zero_Options :: sqlite_Options where
  "sqlite_zero_Options =
     \<lparr>Driver = [], DSN = [], Table = [], NoCreate = False, Key = [], CipherPageSize = 0\<rparr>"

section \<open>Reading the statements of the two dialects\<close>

lemma strip_prefix_append: "strip_prefix p (p @ r) = Some r"
  by (induction p) auto

lemma strip_suffix_append: "strip_suffix s (r @ s) = Some r"
  by (simp add: strip_suffix_def strip_prefix_append)

lemmas read_stmt = classify_def between_def strip_suffix_append fmt_verb_def fmt_extra_def

lemma classify_postgres:
  "classify (deleteQuery (postgres_NewQueries tbl)) = Some (SDelete, tbl)"
  "classify (existsQuery (postgres_NewQueries tbl)) = Some (SExists, tbl)"
  "classify (getQuery (postgres_NewQueries tbl)) = Some (SGet, tbl)"
  "classify (putQuery (postgres_NewQueries tbl)) = Some (SUpsert, tbl)"
  "classify (getSizeQuery (postgres_NewQueries tbl)) = Some (SSize, tbl)"
  by (simp_all add: postgres_NewQueries_def read_stmt)

lemma classify_sqlite:
  "classify (deleteQuery (sqlite_NewQueries tbl)) = Some (SDelete, tbl)"
  "classify (existsQuery (sqlite_NewQueries tbl)) = Some (SExists, tbl)"
  "classify (getQuery (sqlite_NewQueries tbl)) = Some (SGet, tbl)"
  "classify (putQuery (sqlite_NewQueries tbl)) = Some (SUpsert, tbl)"
  "classify (getSizeQuery (sqlite_NewQueries tbl)) = Some (SSize, tbl)"
  by (simp_all add: sqlite_NewQueries_def read_stmt)

lemma classify_dialect:
  assumes "qs = postgres_NewQueries tbl \<or> qs = sqlite_NewQueries tbl"
  shows "classify (deleteQuery qs) = Some (SDelete, tbl)"
    and "classify (existsQuery qs) = Some (SExists, tbl)"
    and "classify (getQuery qs) = Some (SGet, tbl)"
    and "classify (putQuery qs) = Some (SUpsert, tbl)"
    and "classify (getSizeQuery qs) = Some (SSize, tbl)"
  using assms classify_postgres classify_sqlite by auto

section \<open>Point operations\<close>

lemmas point_ops = Datastore_Get_def Datastore_Has_def Datastore_GetSize_def
  Datastore_Delete_def Datastore_Put_def NewDatastore_def

lemmas db_calls = db_QueryRow_def db_Exec_def refuse_def record_call_def affected_def
  query_row_on_def exec_on_def run_read_def run_write_def Scan_bytes_def Scan_bool_def
  Scan_int_def Let_def

lemma absent_no_rows: "map_of t k = None \<Longrightarrow> filter (\<lambda>r. fst r = k) t = []"
  by (induction t) (auto split: if_splits)

lemma absent_delete: "map_of t k = None \<Longrightarrow> AList.delete k t = t"
  by (induction t) (auto split: if_splits)

lemma absent_key:
  assumes dialect: "qs = postgres_NewQueries tbl \<or> qs = sqlite_NewQueries tbl"
    and tbl: "tables db tbl = Some t"
    and absent: "map_of t k = None"
    and up: "\<not> closed db" "\<forall>c. fault db (log db) c = None" "rows_affected_err db = None"
  shows "fst (Datastore_Get (NewDatastore qs) k db) = Inl ErrNotFound"
    and "fst (Datastore_Has (NewDatastore qs) k db) = (False, None)"
    and "fst (Datastore_GetSize (NewDatastore qs) k db) = (- 1, Some ErrNotFound)"
    and "fst (db_Exec (deleteQuery qs) [AText k] db) = Inr (Inr 0)"
    and "fst (Datastore_Delete (NewDatastore qs) k db) = Some ErrNotFound"
  using tbl absent up classify_dialect[OF dialect]
  by (simp_all add: point_ops db_calls absent_no_rows absent_delete)

lemma errors_propagate:
  "(Scan_bytes (fst (db_QueryRow (getQuery (queries d)) [AText k] db)) = Inl e \<and> e \<noteq> ErrNoRows
      \<longrightarrow> fst (Datastore_Get d k db) = Inl e)
 \<and> (Scan_bool (fst (db_QueryRow (existsQuery (queries d)) [AText k] db)) = Inl e \<and> e \<noteq> ErrNoRows
      \<longrightarrow> fst (Datastore_Has d k db) = (False, Some e))
 \<and> (Scan_int (fst (db_QueryRow (getSizeQuery (queries d)) [AText k] db)) = Inl e \<and> e \<noteq> ErrNoRows
      \<longrightarrow> fst (Datastore_GetSize d k db) = (0, Some e))
 \<and> (fst (db_Exec (deleteQuery (queries d)) [AText k] db) = Inl e
      \<longrightarrow> fst (Datastore_Delete d k db) = Some e)
 \<and> (fst (db_Exec (deleteQuery (queries d)) [AText k] db) = Inr (Inl e)
      \<longrightarrow> fst (Datastore_Delete d k db) = Some e)"
  by (auto simp: point_ops split: prod.splits sum.splits)

text \<open>
  A key that no call has put a value under has no row: the absence of a row for \<open>k\<close> is kept
  by every \<open>Put\<close> under another key and by every \<open>Delete\<close>, whether they succeed or not.
\<close>

lemma ds_do_keeps_absent:
  assumes dialect: "qs = postgres_NewQueries tbl \<or> qs = sqlite_NewQueries tbl"
    and "tables db tbl = Some t" "map_of t k = None" "\<not> puts k x"
  shows "\<exists>t'. tables (ds_do (NewDatastore qs) x db) tbl = Some t' \<and> map_of t' k = None"
proof (cases x)
  case (DPut k' v)
  with assms(2-) classify_dialect(4)[OF dialect] show ?thesis
    by (auto simp: ds_do_def puts_def point_ops db_calls update_conv'
        split: option.splits sum.splits prod.splits)
next
  case (DDelete k')
  with assms(2-) classify_dialect(1)[OF dialect] show ?thesis
    by (auto simp: ds_do_def puts_def point_ops db_calls delete_conv'
        split: option.splits sum.splits prod.splits)
qed

lemma never_put_absent:
  assumes dialect: "qs = postgres_NewQueries tbl \<or> qs = sqlite_NewQueries tbl"
  shows "tables db tbl = Some t \<Longrightarrow> map_of t k = None \<Longrightarrow> \<not> list_ex (puts k) xs \<Longrightarrow>
    \<exists>t'. tables (ds_run (NewDatastore qs) xs db) tbl = Some t' \<and> map_of t' k = None"
proof (induction xs arbitrary: db t)
  case Nil
  then show ?case by (simp add: ds_run_def)
next
  case (Cons x xs)
  from Cons.prems have "\<not> puts k x" "\<not> list_ex (puts k) xs" by auto
  from ds_do_keeps_absent[OF dialect Cons.prems(1,2) this(1)] obtain t' where
    "tables (ds_do (NewDatastore qs) x db) tbl = Some t'" "map_of t' k = None" by auto
  from Cons.IH[OF this \<open>\<not> list_ex (puts k) xs\<close>] show ?case
    by (simp add: ds_run_def)
qed

text \<open>
  C5. A key with no row in the table (as is every key never written, by
  \<open>never_put_absent\<close>): \<open>Get\<close> and \<open>GetSize\<close> return \<open>ErrNotFound\<close>,
  \<open>Has\<close> returns false and no error, and \<open>Delete\<close> returns \<open>ErrNotFound\<close> although its
  statement was executed without error, on zero rows. (Second half, for every statement
  set, key and database \<open>d'\<close>, \<open>k'\<close>, \<open>db'\<close>.) Any error that the executor or \<open>Scan\<close>
  reports, other than \<open>ErrNoRows\<close>, is returned as it is by \<open>Get\<close>, \<open>Has\<close> and \<open>GetSize\<close>;
  \<open>Delete\<close> returns any error of its statement and of the affected-row count as it is.
\<close>

theorem absent_key_not_found:
  assumes dialect: "qs = postgres_NewQueries tbl \<or> qs = sqlite_NewQueries tbl"
    and tbl: "tables db tbl = Some t"
    and absent: "map_of t k = None"
    and up: "\<not> closed db" "\<forall>c. fault db (log db) c = None" "rows_affected_err db = None"
  shows "(fst (Datastore_Get (NewDatastore qs) k db) = Inl ErrNotFound
       \<and> fst (Datastore_Has (NewDatastore qs) k db) = (False, None)
       \<and> fst (Datastore_GetSize (NewDatastore qs) k db) = (- 1, Some ErrNotFound)
       \<and> fst (db_Exec (deleteQuery qs) [AText k] db) = Inr (Inr 0)
       \<and> fst (Datastore_Delete (NewDatastore qs) k db) = Some ErrNotFound)
    \<and> ((Scan_bytes (fst (db_QueryRow (getQuery (queries d')) [AText k'] db')) = Inl e
           \<and> e \<noteq> ErrNoRows
         \<longrightarrow> fst (Datastore_Get d' k' db') = Inl e)
      \<and> (Scan_bool (fst (db_QueryRow (existsQuery (queries d')) [AText k'] db')) = Inl e
           \<and> e \<noteq> ErrNoRows
         \<longrightarrow> fst (Datastore_Has d' k' db') = (False, Some e))
      \<and> (Scan_int (fst (db_QueryRow (getSizeQuery (queries d')) [AText k'] db')) = Inl e
           \<and> e \<noteq> ErrNoRows
         \<longrightarrow> fst (Datastore_GetSize d' k' db') = (0, Some e))
      \<and> (fst (db_Exec (deleteQuery (queries d')) [AText k'] db') = Inl e
         \<longrightarrow> fst (Datastore_Delete d' k' db') = Some e)
      \<and> (fst (db_Exec (deleteQuery (queries d')) [AText k'] db') = Inr (Inl e)
         \<longrightarrow> fst (Datastore_Delete d' k' db') = Some e))"
  using absent_key[OF dialect tbl absent up] errors_propagate[of d' k' db' e] by simp

lemmas example_states = example_db_def refusing_db_def no_delete_db_def


theorem absent_key_not_found_witness:
  "fst (Datastore_Get (NewDatastore (sqlite_NewQueries ''blocks'')) ''/x'' example_db)
     = Inl ErrNotFound
 \<and> fst (Datastore_Has (NewDatastore (sqlite_NewQueries ''blocks'')) ''/x'' example_db)
     = (False, None)
 \<and> fst (Datastore_GetSize (NewDatastore (sqlite_NewQueries ''blocks'')) ''/x'' example_db)
     = (- 1, Some ErrNotFound)
 \<and> fst (Datastore_Delete (NewDatastore (sqlite_NewQueries ''blocks'')) ''/x'' example_db)
     = Some ErrNotFound
 \<and> fst (Datastore_Get (NewDatastore (postgres_NewQueries ''blocks'')) ''/b'' refusing_db)
     = Inl (DriverError ''connection refused'')
 \<and> fst (Datastore_Has (NewDatastore (postgres_NewQueries ''blocks'')) ''/b'' refusing_db)
     = (False, Some (DriverError ''connection refused''))
 \<and> fst (Datastore_GetSize (NewDatastore (postgres_NewQueries ''blocks'')) ''/b'' refusing_db)
     = (0, Some (DriverError ''connection refused''))
 \<and> fst (Datastore_Delete (NewDatastore (postgres_NewQueries ''blocks'')) ''/b'' refusing_db)
     = Some (DriverError ''connection refused'')
 \<and> fst (Datastore_Delete (NewDatastore (postgres_NewQueries ''blocks'')) ''/b'' uncounted_db)
     = Some (DriverError ''RowsAffected not supported'')"
proof -
  have tbl: "tables example_db ''blocks'' = Some [(''/b'', [7, 8])]"
    by (simp add: example_states)
  have absent: "map_of [(''/b'', [7, 8 :: 8 word])] ''/x'' = None"
    by simp
  have up: "\<not> closed example_db" "\<forall>c. fault example_db (log example_db) c = None"
    "rows_affected_err example_db = None"
    by (simp_all add: example_states)
  have refused:
    "Scan_bytes (fst (db_QueryRow (getQuery (queries (NewDatastore (postgres_NewQueries ''blocks''))))
        [AText ''/b''] refusing_db)) = Inl (DriverError ''connection refused'')"
    "Scan_bool (fst (db_QueryRow (existsQuery (queries (NewDatastore (postgres_NewQueries ''blocks''))))
        [AText ''/b''] refusing_db)) = Inl (DriverError ''connection refused'')"
    "Scan_int (fst (db_QueryRow (getSizeQuery (queries (NewDatastore (postgres_NewQueries ''blocks''))))
        [AText ''/b''] refusing_db)) = Inl (DriverError ''connection refused'')"
    "fst (db_Exec (deleteQuery (queries (NewDatastore (postgres_NewQueries ''blocks''))))
        [AText ''/b''] refusing_db) = Inl (DriverError ''connection refused'')"
    by (simp_all add: example_states db_calls)
  have uncounted:
    "fst (db_Exec (deleteQuery (queries (NewDatastore (postgres_NewQueries ''blocks''))))
        [AText ''/b''] uncounted_db) = Inr (Inl (DriverError ''RowsAffected not supported''))"
    by (simp add: example_states uncounted_db_def db_calls NewDatastore_def classify_postgres)
  have first: "fst (Datastore_Get (NewDatastore (sqlite_NewQueries ''blocks'')) ''/x'' example_db)
       = Inl ErrNotFound
     \<and> fst (Datastore_Has (NewDatastore (sqlite_NewQueries ''blocks'')) ''/x'' example_db)
       = (False, None)
     \<and> fst (Datastore_GetSize (NewDatastore (sqlite_NewQueries ''blocks'')) ''/x'' example_db)
       = (- 1, Some ErrNotFound)
     \<and> fst (Datastore_Delete (NewDatastore (sqlite_NewQueries ''blocks'')) ''/x'' example_db)
       = Some ErrNotFound
     \<and> fst (Datastore_Get (NewDatastore (postgres_NewQueries ''blocks'')) ''/b'' refusing_db)
       = Inl (DriverError ''connection refused'')
     \<and> fst (Datastore_Has (NewDatastore (postgres_NewQueries ''blocks'')) ''/b'' refusing_db)
       = (False, Some (DriverError ''connection refused''))
     \<and> fst (Datastore_GetSize (NewDatastore (postgres_NewQueries ''blocks'')) ''/b'' refusing_db)
       = (0, Some (DriverError ''connection refused''))
     \<and> fst (Datastore_Delete (NewDatastore (postgres_NewQueries ''blocks'')) ''/b'' refusing_db)
       = Some (DriverError ''connection refused'')"
    using absent_key_not_found [where qs = "sqlite_NewQueries ''blocks''" and tbl = "''blocks''"
        and d' = "NewDatastore (postgres_NewQueries ''blocks'')" and k' = "''/b''"
        and db' = refusing_db and e = "DriverError ''connection refused''",
        OF _ tbl absent up] refused
    by simp
  have second:
    "fst (Datastore_Delete (NewDatastore (postgres_NewQueries ''blocks'')) ''/b'' uncounted_db)
       = Some (DriverError ''RowsAffected not supported'')"
    using absent_key_not_found [where qs = "sqlite_NewQueries ''blocks''" and tbl = "''blocks''"
        and d' = "NewDatastore (postgres_NewQueries ''blocks'')" and k' = "''/b''"
        and db' = uncounted_db and e = "DriverError ''RowsAffected not supported''",
        OF _ tbl absent up] uncounted
    by simp
  from first second show ?thesis by simp
qed

section \<open>Put, then Get\<close>

lemma put_effect:
  assumes dialect: "qs = postgres_NewQueries tbl \<or> qs = sqlite_NewQueries tbl"
    and put: "Datastore_Put (NewDatastore qs) k v db = (None, db1)"
  shows "\<exists>t. tables db tbl = Some t \<and> tables db1 = (tables db)(tbl \<mapsto> AList.update k v t)"
  using put classify_dialect(4)[OF dialect]
  by (auto simp: point_ops db_calls split: option.splits sum.splits if_splits prod.splits)

lemma get_present:
  assumes dialect: "qs = postgres_NewQueries tbl \<or> qs = sqlite_NewQueries tbl"
    and "tables db tbl = Some t" "map_of t k = Some v"
    and "refuse db (CQueryRow (getQuery qs) [AText k]) = None"
  shows "fst (Datastore_Get (NewDatastore qs) k db) = Inr v"
  using assms(2-) classify_dialect(3)[OF dialect]
  by (simp add: point_ops db_QueryRow_def query_row_on_def run_read_def Scan_bytes_def Let_def)

lemma put_succeeds_iff:
  assumes dialect: "qs = postgres_NewQueries tbl \<or> qs = sqlite_NewQueries tbl"
    and "tables db tbl = Some t"
  shows "fst (Datastore_Put (NewDatastore qs) k v db) = None
         \<longleftrightarrow> refuse db (CExec (putQuery qs) [AText k, ABlob v]) = None"
  using assms(2) classify_dialect(4)[OF dialect]
  by (auto simp: point_ops db_Exec_def exec_on_def run_write_def Let_def
      split: option.splits sum.splits prod.splits)

text \<open>
  C6. With the statements of either dialect, \<open>Put\<close> returns no error exactly when the
  executor does not refuse the call and the table exists: whether a row is already stored
  under the key plays no part, so neither upsert statement fails on an existing row. After
  a \<open>Put\<close> of \<open>va\<close> under \<open>k\<close> that returned no error, \<open>Get\<close> of \<open>k\<close> returns exactly
  \<open>va\<close>; a second \<open>Put\<close> under the same key returns an error only if the executor refuses
  the call; and after it \<open>Get\<close> returns the second value. (\<open>Get\<close> is taken on a call that
  the executor does not refuse.)
\<close>

theorem put_get_round_trip:
  assumes dialect: "qs = postgres_NewQueries tbl \<or> qs = sqlite_NewQueries tbl"
  shows "(fst (Datastore_Put (NewDatastore qs) k va db) = None
            \<longleftrightarrow> refuse db (CExec (putQuery qs) [AText k, ABlob va]) = None
                \<and> tables db tbl \<noteq> None)
       \<and> (\<forall>db1. Datastore_Put (NewDatastore qs) k va db = (None, db1) \<longrightarrow>
            (refuse db1 (CQueryRow (getQuery qs) [AText k]) = None
               \<longrightarrow> fst (Datastore_Get (NewDatastore qs) k db1) = Inr va)
          \<and> (fst (Datastore_Put (NewDatastore qs) k vb db1) = None
               \<longleftrightarrow> refuse db1 (CExec (putQuery qs) [AText k, ABlob vb]) = None)
          \<and> (\<forall>db2. Datastore_Put (NewDatastore qs) k vb db1 = (None, db2)
                 \<and> refuse db2 (CQueryRow (getQuery qs) [AText k]) = None
               \<longrightarrow> fst (Datastore_Get (NewDatastore qs) k db2) = Inr vb))"
proof -
  have first: "fst (Datastore_Put (NewDatastore qs) k va db) = None
      \<longleftrightarrow> refuse db (CExec (putQuery qs) [AText k, ABlob va]) = None \<and> tables db tbl \<noteq> None"
  proof (cases "tables db tbl")
    case None
    then show ?thesis
      using classify_dialect(4)[OF dialect]
      by (simp add: point_ops db_Exec_def exec_on_def Let_def split: option.splits)
  next
    case (Some t)
    with put_succeeds_iff[OF dialect Some] show ?thesis by simp
  qed
  have rest: "\<forall>db1. Datastore_Put (NewDatastore qs) k va db = (None, db1) \<longrightarrow>
      (refuse db1 (CQueryRow (getQuery qs) [AText k]) = None
         \<longrightarrow> fst (Datastore_Get (NewDatastore qs) k db1) = Inr va)
    \<and> (fst (Datastore_Put (NewDatastore qs) k vb db1) = None
         \<longleftrightarrow> refuse db1 (CExec (putQuery qs) [AText k, ABlob vb]) = None)
    \<and> (\<forall>db2. Datastore_Put (NewDatastore qs) k vb db1 = (None, db2)
           \<and> refuse db2 (CQueryRow (getQuery qs) [AText k]) = None
         \<longrightarrow> fst (Datastore_Get (NewDatastore qs) k db2) = Inr vb)"
  proof (intro allI impI)
    fix db1
    assume put1: "Datastore_Put (NewDatastore qs) k va db = (None, db1)"
    from put_effect[OF dialect put1] obtain t where
      t: "tables db1 tbl = Some (AList.update k va t)" by auto
    have a: "refuse db1 (CQueryRow (getQuery qs) [AText k]) = None
              \<longrightarrow> fst (Datastore_Get (NewDatastore qs) k db1) = Inr va"
      using get_present[OF dialect t] by (simp add: update_conv')
    have b: "fst (Datastore_Put (NewDatastore qs) k vb db1) = None
              \<longleftrightarrow> refuse db1 (CExec (putQuery qs) [AText k, ABlob vb]) = None"
      by (rule put_succeeds_iff[OF dialect t])
    have c: "fst (Datastore_Get (NewDatastore qs) k db2) = Inr vb"
      if "Datastore_Put (NewDatastore qs) k vb db1 = (None, db2)"
        and "refuse db2 (CQueryRow (getQuery qs) [AText k]) = None" for db2
    proof -
      from put_effect[OF dialect that(1)] t
      have "tables db2 tbl = Some (AList.update k vb (AList.update k va t))" by auto
      from get_present[OF dialect this _ that(2)] show ?thesis by (simp add: update_conv')
    qed
    from a b c show "(refuse db1 (CQueryRow (getQuery qs) [AText k]) = None
         \<longrightarrow> fst (Datastore_Get (NewDatastore qs) k db1) = Inr va)
      \<and> (fst (Datastore_Put (NewDatastore qs) k vb db1) = None
         \<longleftrightarrow> refuse db1 (CExec (putQuery qs) [AText k, ABlob vb]) = None)
      \<and> (\<forall>db2. Datastore_Put (NewDatastore qs) k vb db1 = (None, db2)
           \<and> refuse db2 (CQueryRow (getQuery qs) [AText k]) = None
         \<longrightarrow> fst (Datastore_Get (NewDatastore qs) k db2) = Inr vb)"
      by blast
  qed
  from first rest show ?thesis by (rule conjI)
qed

theorem put_get_round_trip_witness:
  "tables example_db ''blocks'' = Some [(''/b'', [7, 8])]
 \<and> fst (Datastore_Put (NewDatastore (postgres_NewQueries ''blocks'')) ''/b'' [1, 2, 3]
     example_db) = None
 \<and> fst (Datastore_Get (NewDatastore (postgres_NewQueries ''blocks'')) ''/b''
     (snd (Datastore_Put (NewDatastore (postgres_NewQueries ''blocks'')) ''/b'' [1, 2, 3]
        example_db))) = Inr [1, 2, 3]
 \<and> fst (Datastore_Put (NewDatastore (postgres_NewQueries ''blocks'')) ''/b'' [4]
     (snd (Datastore_Put (NewDatastore (postgres_NewQueries ''blocks'')) ''/b'' [1, 2, 3]
        example_db))) = None
 \<and> fst (Datastore_Get (NewDatastore (postgres_NewQueries ''blocks'')) ''/b''
     (snd (Datastore_Put (NewDatastore (postgres_NewQueries ''blocks'')) ''/b'' [4]
       (snd (Datastore_Put (NewDatastore (postgres_NewQueries ''blocks'')) ''/b'' [1, 2, 3]
          example_db))))) = Inr [4]
 \<and> fst (Datastore_Put (NewDatastore (sqlite_NewQueries ''blocks'')) ''/b'' [1, 2, 3]
     example_db) = None
 \<and> fst (Datastore_Get (NewDatastore (sqlite_NewQueries ''blocks'')) ''/b''
     (snd (Datastore_Put (NewDatastore (sqlite_NewQueries ''blocks'')) ''/b'' [1, 2, 3]
        example_db))) = Inr [1, 2, 3]
 \<and> fst (Datastore_Put (NewDatastore (sqlite_NewQueries ''blocks'')) ''/b'' [4]
     (snd (Datastore_Put (NewDatastore (sqlite_NewQueries ''blocks'')) ''/b'' [1, 2, 3]
        example_db))) = None
 \<and> fst (Datastore_Get (NewDatastore (sqlite_NewQueries ''blocks'')) ''/b''
     (snd (Datastore_Put (NewDatastore (sqlite_NewQueries ''blocks'')) ''/b'' [4]
       (snd (Datastore_Put (NewDatastore (sqlite_NewQueries ''blocks'')) ''/b'' [1, 2, 3]
          example_db))))) = Inr [4]"
proof -
  have run: "fst (Datastore_Put (NewDatastore qs) ''/b'' [1, 2, 3] example_db) = None
     \<and> fst (Datastore_Get (NewDatastore qs) ''/b''
         (snd (Datastore_Put (NewDatastore qs) ''/b'' [1, 2, 3] example_db))) = Inr [1, 2, 3]
     \<and> fst (Datastore_Put (NewDatastore qs) ''/b'' [4]
         (snd (Datastore_Put (NewDatastore qs) ''/b'' [1, 2, 3] example_db))) = None
     \<and> fst (Datastore_Get (NewDatastore qs) ''/b''
         (snd (Datastore_Put (NewDatastore qs) ''/b'' [4]
           (snd (Datastore_Put (NewDatastore qs) ''/b'' [1, 2, 3] example_db))))) = Inr [4]"
    if dialect: "qs = postgres_NewQueries ''blocks'' \<or> qs = sqlite_NewQueries ''blocks''"
    for qs
  proof -
    let ?d = "NewDatastore qs"
    let ?db1 = "snd (Datastore_Put ?d ''/b'' [1, 2, 3] example_db)"
    let ?db2 = "snd (Datastore_Put ?d ''/b'' [4] ?db1)"
    have fault: "fault example_db = (\<lambda>_ _. None)" "\<not> closed example_db"
      by (simp_all add: example_states)
    have tbl: "tables example_db ''blocks'' = Some [(''/b'', [7, 8])]"
      by (simp add: example_states)
    note rt = put_get_round_trip[where vb = "[4]" and va = "[1, 2, 3]" and k = "''/b''"
        and db = example_db, OF dialect]
    have p1: "fst (Datastore_Put ?d ''/b'' [1, 2, 3] example_db) = None"
      using rt[THEN conjunct1] tbl fault by (simp add: refuse_def)
    have db1: "fault ?db1 = (\<lambda>_ _. None)" "\<not> closed ?db1"
      using fault by (simp_all add: point_ops db_Exec_def record_call_def Let_def
          split: option.splits sum.splits prod.splits)
    have put1: "Datastore_Put ?d ''/b'' [1, 2, 3] example_db = (None, ?db1)"
      using p1 by (simp add: prod_eq_iff)
    note after = rt[THEN conjunct2, rule_format, OF put1]
    have p2: "fst (Datastore_Put ?d ''/b'' [4] ?db1) = None"
      using after[THEN conjunct2, THEN conjunct1] db1 by (simp add: refuse_def)
    have db2: "fault ?db2 = (\<lambda>_ _. None)" "\<not> closed ?db2"
      using db1 by (simp_all add: point_ops db_Exec_def record_call_def Let_def
          split: option.splits sum.splits prod.splits)
    have put2: "Datastore_Put ?d ''/b'' [4] ?db1 = (None, ?db2)"
      using p2 by (simp add: prod_eq_iff)
    have free1: "refuse ?db1 (CQueryRow (getQuery qs) [AText ''/b'']) = None"
      using db1 by (simp add: refuse_def)
    have free2: "refuse ?db2 (CQueryRow (getQuery qs) [AText ''/b'']) = None"
      using db2 by (simp add: refuse_def)
    have g1: "fst (Datastore_Get ?d ''/b'' ?db1) = Inr [1, 2, 3]"
      using after[THEN conjunct1] free1 by (rule mp)
    have g2: "fst (Datastore_Get ?d ''/b'' ?db2) = Inr [4]"
      using after[THEN conjunct2, THEN conjunct2, rule_format, OF conjI, OF put2 free2] .
    from p1 g1 p2 g2 show ?thesis by (intro conjI)
  qed
  have stored: "tables example_db ''blocks'' = Some [(''/b'', [7, 8])]"
    by (simp add: example_states)
  from stored run[of "postgres_NewQueries ''blocks''"] run[of "sqlite_NewQueries ''blocks''"]
  show ?thesis by simp
qed

section \<open>Sync\<close>

text \<open>
  C10. \<open>Sync\<close> returns nil and hands back the database as it received it: no call is
  added to the executor's log, and the tables and every other part of the state are the
  same.
\<close>

theorem sync_is_a_no_op:
  "Datastore_Sync d k db = (None, db) \<and> log (snd (Datastore_Sync d k db)) = log db"
  by (simp add: Datastore_Sync_def)

section \<open>Batches\<close>

lemmas tx_calls = tx_Exec_def tx_Commit_def tx_Rollback_def db_Begin_def record_call_def Let_def

lemmas batch_steps = batch_exec_def batch_GetTransaction_def batch_rollback_def tx_over_def

text \<open>
  When \<open>Begin\<close> fails there is no transaction, and \<open>Put\<close> and \<open>Delete\<close> call
  \<open>Rollback\<close> through the nil \<open>txn\<close>.
\<close>

lemma begin_failure_panics:
  assumes "txn b = None" and "fst (db_Begin db) = (None, Some e)"
  shows "batch_exec stmt args b db = Panic NilDeref"
  using assms
  by (auto simp: batch_exec_def batch_GetTransaction_def batch_rollback_def
      split: prod.splits option.splits)










text \<open>
  C7. \<open>Commit\<close> on a batch whose transaction was never opened returns the error
  \<^verbatim>\<open>no transaction started, cannot commit\<close>, makes no call and changes nothing. When the
  commit of the opened transaction fails with \<open>e\<close>, \<open>Commit\<close> calls \<open>Rollback\<close> on the
  transaction next (the executor's log ends with the commit and the rollback), drops what
  that call returns, and returns \<open>e\<close>.
\<close>

theorem commit_errors:
  "(txn b = None
      \<longrightarrow> batch_Commit b db
            = (Some (ErrorString ''no transaction started, cannot commit''), b, db))
 \<and> (txn b = Some t \<and> tx_Commit t db = (Some e, t', db1)
      \<longrightarrow> batch_Commit b db
            = (Some e, b\<lparr>txn := Some (fst (snd (tx_Rollback t' db1)))\<rparr>,
               snd (snd (tx_Rollback t' db1)))
        \<and> log (snd (snd (batch_Commit b db))) = log db @ [CTxCommit, CTxRollback])"
  by (auto simp: batch_Commit_def tx_calls split: prod.splits option.splits if_splits)

theorem commit_errors_witness:
  "batch_Commit (fst (Datastore_Batch (NewDatastore (postgres_NewQueries ''blocks'')))) example_db
     = (Some (ErrorString ''no transaction started, cannot commit''),
        fst (Datastore_Batch (NewDatastore (postgres_NewQueries ''blocks''))), example_db)
 \<and> fst (batch_Commit
        \<lparr>b_queries = postgres_NewQueries ''blocks'',
          txn = Some \<lparr>work = tables refusing_db, tx_done = False\<rparr>\<rparr> refusing_db)
     = Some (DriverError ''connection refused'')
 \<and> log (snd (snd (batch_Commit
        \<lparr>b_queries = postgres_NewQueries ''blocks'',
          txn = Some \<lparr>work = tables refusing_db, tx_done = False\<rparr>\<rparr> refusing_db)))
     = [CTxCommit, CTxRollback]"
proof -
  let ?t = "\<lparr>work = tables refusing_db, tx_done = False\<rparr>"
  let ?b = "\<lparr>b_queries = postgres_NewQueries ''blocks'', txn = Some ?t\<rparr>"
  have none: "txn (fst (Datastore_Batch (NewDatastore (postgres_NewQueries ''blocks'')))) = None"
    by (simp add: Datastore_Batch_def)
  have fails: "txn ?b = Some ?t
      \<and> tx_Commit ?t refusing_db
          = (Some (DriverError ''connection refused''), ?t\<lparr>tx_done := True\<rparr>,
             record_call refusing_db CTxCommit)"
    by (simp add: tx_Commit_def refuse_def example_states Let_def)
  have log: "log refusing_db = []"
    by (simp add: example_states)
  have unopened: "batch_Commit (fst (Datastore_Batch (NewDatastore (postgres_NewQueries ''blocks''))))
      example_db
     = (Some (ErrorString ''no transaction started, cannot commit''),
        fst (Datastore_Batch (NewDatastore (postgres_NewQueries ''blocks''))), example_db)"
    using commit_errors[where b = "fst (Datastore_Batch (NewDatastore (postgres_NewQueries ''blocks'')))"
      and db = example_db] none by blast
  note failed = commit_errors[where b = ?b and t = ?t and db = refusing_db
      and e = "DriverError ''connection refused''"
      and t' = "?t\<lparr>tx_done := True\<rparr>" and ?db1.0 = "record_call refusing_db CTxCommit",
      THEN conjunct2, rule_format, OF fails]
  have err: "fst (batch_Commit ?b refusing_db) = Some (DriverError ''connection refused'')"
    using failed[THEN conjunct1] by simp
  have calls: "log (snd (snd (batch_Commit ?b refusing_db))) = [CTxCommit, CTxRollback]"
    using failed[THEN conjunct2] log by simp
  from unopened err calls show ?thesis by blast
qed

text \<open>
  C9. A key with no row in the table: \<open>Delete\<close> on a new batch returns nil, and
  \<open>Delete\<close> on the datastore returns \<open>ErrNotFound\<close>. (Second conjunct, for every batch
  \<open>b'\<close> with a transaction.) The batch returns nil whatever result the executed statement
  delivers: the affected-row count is never read.
\<close>

theorem batch_delete_ignores_absence:
  assumes dialect: "qs = postgres_NewQueries tbl \<or> qs = sqlite_NewQueries tbl"
    and tbl: "tables db tbl = Some t"
    and absent: "map_of t k = None"
    and up: "\<not> closed db" "\<forall>l c. fault db l c = None" "rows_affected_err db = None"
  shows "((\<exists>b1 db1. batch_Delete (fst (Datastore_Batch (NewDatastore qs))) k db
              = Return (None, b1, db1))
        \<and> fst (Datastore_Delete (NewDatastore qs) k db) = Some ErrNotFound)
     \<and> (\<forall>tx res tx' db1. txn b' = Some tx
          \<and> tx_Exec (deleteQuery (b_queries b')) [AText k'] tx db' = (Inr res, tx', db1)
        \<longrightarrow> batch_Delete b' k' db' = Return (None, b'\<lparr>txn := Some tx'\<rparr>, db1))"
proof -
  have "\<exists>b1 db1. batch_Delete (fst (Datastore_Batch (NewDatastore qs))) k db
              = Return (None, b1, db1)"
    using tbl up classify_dialect(1)[OF dialect]
    by (simp add: batch_Delete_def batch_steps tx_calls refuse_def exec_on_def run_write_def
        Datastore_Batch_def NewDatastore_def)
  moreover have "fst (Datastore_Delete (NewDatastore qs) k db) = Some ErrNotFound"
    using absent_key(5)[OF dialect tbl absent up(1) _ up(3)] up(2) by simp
  moreover have "batch_Delete b' k' db' = Return (None, b'\<lparr>txn := Some tx'\<rparr>, db1)"
    if "txn b' = Some tx"
      and "tx_Exec (deleteQuery (b_queries b')) [AText k'] tx db' = (Inr res, tx', db1)"
    for tx res tx' db1
    using that by (simp add: batch_Delete_def batch_steps)
  ultimately show ?thesis by blast
qed

theorem batch_delete_ignores_absence_witness:
  "(\<exists>b1 db1. batch_Delete (fst (Datastore_Batch (NewDatastore (sqlite_NewQueries ''blocks''))))
       ''/x'' example_db = Return (None, b1, db1))
 \<and> fst (Datastore_Delete (NewDatastore (sqlite_NewQueries ''blocks'')) ''/x'' example_db)
     = Some ErrNotFound
 \<and> (\<exists>b1 db1. batch_Delete
       \<lparr>b_queries = sqlite_NewQueries ''blocks'',
         txn = Some \<lparr>work = tables example_db, tx_done = False\<rparr>\<rparr> ''/x'' example_db
       = Return (None, b1, db1))"
proof -
  let ?tx = "\<lparr>work = tables example_db, tx_done = False\<rparr>"
  let ?b = "\<lparr>b_queries = sqlite_NewQueries ''blocks'', txn = Some ?tx\<rparr>"
  have dialect: "sqlite_NewQueries ''blocks'' = postgres_NewQueries ''blocks''
      \<or> sqlite_NewQueries ''blocks'' = sqlite_NewQueries ''blocks''"
    by simp
  have tbl: "tables example_db ''blocks'' = Some [(''/b'', [7, 8])]"
    by (simp add: example_states)
  have absent: "map_of [(''/b'', [7, 8 :: 8 word])] ''/x'' = None"
    by simp
  have up: "\<not> closed example_db" "\<forall>l c. fault example_db l c = None"
    "rows_affected_err example_db = None"
    by (simp_all add: example_states)
  have "\<exists>res tx' db1.
      tx_Exec (deleteQuery (b_queries ?b)) [AText ''/x''] ?tx example_db = (Inr res, tx', db1)"
    by (simp add: tx_calls refuse_def exec_on_def run_write_def classify_sqlite example_states)
  then obtain res tx' db1 where
    exec: "txn ?b = Some ?tx
      \<and> tx_Exec (deleteQuery (b_queries ?b)) [AText ''/x''] ?tx example_db = (Inr res, tx', db1)"
    by auto
  note both = batch_delete_ignores_absence[OF dialect tbl absent up,
      where b' = ?b and k' = "''/x''" and db' = example_db]
  from both[THEN conjunct2, rule_format, OF exec]
  have "\<exists>b1 db1. batch_Delete ?b ''/x'' example_db = Return (None, b1, db1)"
    by blast
  with both[THEN conjunct1] show ?thesis
    by blast
qed

section \<open>Result streams\<close>

text \<open>
  A row that cannot be scanned ends the stream: the rows before it are yielded, and neither
  the error nor any later row is. No result of the stream carries an error.
\<close>

lemma results_unfold:
  "ResultsFromIterator q [] = []"
  "ResultsFromIterator q (Inl e # rows) = []"
  "ResultsFromIterator q (Inr r # rows) = result_of q r # ResultsFromIterator q rows"
  by (simp_all add: ResultsFromIterator.simps[of q "[]"] ResultsFromIterator.simps[of q "_ # _"]
      RawQuery_Next_def result_of_def Let_def split: prod.splits)

lemma results_no_error: "r \<in> set (ResultsFromIterator q rows) \<Longrightarrow> Error r = None"
proof (induction rows)
  case Nil
  then show ?case by (simp add: results_unfold)
next
  case (Cons row rows)
  then show ?case
    by (cases row) (auto simp: results_unfold result_of_def RawQuery_Next_def Let_def split: prod.splits)
qed

lemma results_stop_at_failure:
  "ResultsFromIterator q (map Inr ok @ Inl e # rest) = map (result_of q) ok"
  by (induction ok) (simp_all add: results_unfold)

lemma results_all_rows: "ResultsFromIterator q (map Inr rows) = map (result_of q) rows"
  by (induction rows) (simp_all add: results_unfold)

lemma results_window_irrelevant:
  "ResultsFromIterator (q\<lparr>Limit := l, Offset := off\<rparr>) rows = ResultsFromIterator q rows"
proof (induction rows)
  case Nil
  then show ?case by (simp add: results_unfold)
next
  case (Cons row rows)
  then show ?case
    by (cases row) (auto simp: results_unfold result_of_def RawQuery_Next_def Let_def split: prod.splits)
qed

lemma offset_no_errors:
  "\<forall>r \<in> set rs. Error r = None \<Longrightarrow> NaiveOffset rs n = drop (nat n) rs"
proof (induction rs arbitrary: n)
  case Nil
  then show ?case by simp
next
  case (Cons r rs)
  show ?case
  proof (cases "n \<le> 0")
    case True
    then show ?thesis by simp
  next
    case False
    then have "nat n = Suc (nat (n - 1))" by simp
    with Cons False show ?thesis by simp
  qed
qed

lemma sql_window:
  assumes dialect: "qs = postgres_NewQueries tbl \<or> qs = sqlite_NewQueries tbl"
  shows "QueryWithParams_sql qs q =
     QueryWithParams_sql qs (q\<lparr>Limit := 0, Offset := 0\<rparr>)
     @ (if Filters q = [] \<and> Orders q = [] then
          (if Limit q \<noteq> 0 then '' LIMIT '' @ dec_int (Limit q) else [])
          @ (if Offset q \<noteq> 0 then '' OFFSET '' @ dec_int (Offset q) else [])
        else [])"
  using dialect
  by (auto simp: QueryWithParams_sql_def Let_def postgres_NewQueries_def sqlite_NewQueries_def
      fmt_verb_def fmt_extra_def)

lemma naive_zero: "NaiveOffset rs 0 = rs" "NaiveLimit rs 0 = rs"
  by (cases rs) (simp_all add: NaiveLimit_def)

lemma sql_window_irrelevant:
  assumes "Filters q \<noteq> [] \<or> Orders q \<noteq> []"
  shows "QueryWithParams_sql qs (q\<lparr>Limit := 0, Offset := 0\<rparr>) = QueryWithParams_sql qs q"
  using assms by (auto simp: QueryWithParams_sql_def Let_def)

lemma raw_query_window_irrelevant:
  assumes "Filters q \<noteq> [] \<or> Orders q \<noteq> []"
  shows "RawQuery d (q\<lparr>Limit := 0, Offset := 0\<rparr>) db = RawQuery d q db"
proof -
  obtain r db1 where run: "db_Query (QueryWithParams_sql (queries d) q) db = (r, db1)"
    by (cases "db_Query (QueryWithParams_sql (queries d) q) db") auto
  then show ?thesis
    by (cases r)
      (simp_all add: RawQuery_def QueryWithParams_def sql_window_irrelevant[OF assms]
        results_window_irrelevant)
qed

lemma query_deferred:
  assumes "Filters q \<noteq> [] \<or> Orders q \<noteq> []"
  shows "Datastore_Query d q db =
     (case RawQuery d (q\<lparr>Limit := 0, Offset := 0\<rparr>) db of
        (Inl e, db1) \<Rightarrow> (Inl e, db1)
      | (Inr raw, db1) \<Rightarrow>
          (Inr (NaiveLimit (NaiveOffset (NaiveOrder (foldl NaiveFilter raw (Filters q)) (Orders q))
                  (Offset q)) (Limit q)), db1))"
proof -
  obtain r db1 where run: "RawQuery d q db = (r, db1)"
    by (cases "RawQuery d q db") auto
  with assms show ?thesis
    by (cases r)
      (auto simp: Datastore_Query_def Let_def naive_zero raw_query_window_irrelevant[OF assms])
qed

lemma query_pushed:
  assumes "Filters q = [] \<and> Orders q = []"
  shows "Datastore_Query d q db = RawQuery d q db"
proof -
  obtain r db1 where run: "RawQuery d q db = (r, db1)"
    by (cases "RawQuery d q db") auto
  with assms show ?thesis
    by (cases r) (simp_all add: Datastore_Query_def Let_def NaiveOrder_def)
qed

lemma window_no_errors:
  assumes "\<forall>r \<in> set rs. Error r = None"
  shows "NaiveLimit (NaiveOffset rs off) l
       = (if l \<le> 0 then drop (nat off) rs else take (nat l) (drop (nat off) rs))"
  using offset_no_errors[OF assms] by (simp add: NaiveLimit_def)

lemma raw_query_no_error:
  assumes "RawQuery d q db = (Inr raw, db1)" and "r \<in> set raw"
  shows "Error r = None"
  using assms results_no_error
  by (auto simp: RawQuery_def split: prod.splits sum.splits)

lemma filters_subset: "set (foldl NaiveFilter rs fs) \<subseteq> set rs"
proof (induction fs arbitrary: rs)
  case Nil
  then show ?case by simp
next
  case (Cons f fs)
  have "set (foldl NaiveFilter (NaiveFilter rs f) fs) \<subseteq> set (NaiveFilter rs f)"
    by (rule Cons.IH)
  also have "\<dots> \<subseteq> set rs"
    by (auto simp: NaiveFilter_def)
  finally show ?case by simp
qed

lemma order_no_error:
  assumes "\<forall>r \<in> set rs. Error r = None"
  shows "\<forall>r \<in> set (NaiveOrder rs os). Error r = None"
  using assms by (auto simp: NaiveOrder_def)

lemma deferred_window:
  assumes "RawQuery d q0 db = (Inr raw, db1)"
  shows "NaiveLimit (NaiveOffset (NaiveOrder (foldl NaiveFilter raw fs) os) off) l
       = (if l \<le> 0 then drop (nat off) (NaiveOrder (foldl NaiveFilter raw fs) os)
          else take (nat l) (drop (nat off) (NaiveOrder (foldl NaiveFilter raw fs) os)))"
proof -
  have "\<forall>r \<in> set (foldl NaiveFilter raw fs). Error r = None"
    using raw_query_no_error[OF assms] filters_subset[of raw fs] by blast
  then have "\<forall>r \<in> set (NaiveOrder (foldl NaiveFilter raw fs) os). Error r = None"
    by (rule order_no_error)
  then show ?thesis
    by (rule window_no_errors)
qed

text \<open>
  C1. With the statements of either dialect. First conjunct: the composed statement is
  the statement of the same query without limit and offset, followed, only when the query
  has neither filters nor orders, by the limit fragment for a nonzero limit and then the
  offset fragment for a nonzero offset; so with a filter or an order the statement has
  neither. Second conjunct: with neither filters nor orders \<open>Query\<close> returns the rows of
  that statement as they come. Third conjunct: with a filter or an order \<open>Query\<close> returns
  the rows of the statement without limit and offset, filtered, then ordered, then cut by
  the offset and then by the limit. Fourth conjunct: that cut is the window
  \<open>take limit (drop offset ...)\<close> of the filtered and ordered sequence (all of it after the
  offset when the limit is not positive).
\<close>

theorem limit_offset_pushed_or_deferred:
  assumes dialect: "qs = postgres_NewQueries tbl \<or> qs = sqlite_NewQueries tbl"
  shows "QueryWithParams_sql qs q =
       QueryWithParams_sql qs (q\<lparr>Limit := 0, Offset := 0\<rparr>)
       @ (if Filters q = [] \<and> Orders q = [] then
            (if Limit q \<noteq> 0 then '' LIMIT '' @ dec_int (Limit q) else [])
            @ (if Offset q \<noteq> 0 then '' OFFSET '' @ dec_int (Offset q) else [])
          else [])
   \<and> (Filters q = [] \<and> Orders q = [] \<longrightarrow> Datastore_Query d q db = RawQuery d q db)
   \<and> (Filters q \<noteq> [] \<or> Orders q \<noteq> [] \<longrightarrow>
        Datastore_Query d q db =
          (case RawQuery d (q\<lparr>Limit := 0, Offset := 0\<rparr>) db of
             (Inl e, db1) \<Rightarrow> (Inl e, db1)
           | (Inr raw, db1) \<Rightarrow>
               (Inr (NaiveLimit
                       (NaiveOffset (NaiveOrder (foldl NaiveFilter raw (Filters q)) (Orders q))
                          (Offset q))
                       (Limit q)), db1)))
   \<and> (\<forall>raw db1. RawQuery d (q\<lparr>Limit := 0, Offset := 0\<rparr>) db = (Inr raw, db1) \<longrightarrow>
        NaiveLimit
          (NaiveOffset (NaiveOrder (foldl NaiveFilter raw (Filters q)) (Orders q)) (Offset q))
          (Limit q)
        = (if Limit q \<le> 0
           then drop (nat (Offset q)) (NaiveOrder (foldl NaiveFilter raw (Filters q)) (Orders q))
           else take (nat (Limit q))
                  (drop (nat (Offset q))
                     (NaiveOrder (foldl NaiveFilter raw (Filters q)) (Orders q)))))"
proof (intro conjI impI allI)
  show "QueryWithParams_sql qs q =
       QueryWithParams_sql qs (q\<lparr>Limit := 0, Offset := 0\<rparr>)
       @ (if Filters q = [] \<and> Orders q = [] then
            (if Limit q \<noteq> 0 then '' LIMIT '' @ dec_int (Limit q) else [])
            @ (if Offset q \<noteq> 0 then '' OFFSET '' @ dec_int (Offset q) else [])
          else [])"
    by (rule sql_window[OF dialect])
next
  assume "Filters q = [] \<and> Orders q = []"
  then show "Datastore_Query d q db = RawQuery d q db"
    by (rule query_pushed)
next
  assume "Filters q \<noteq> [] \<or> Orders q \<noteq> []"
  then show "Datastore_Query d q db =
          (case RawQuery d (q\<lparr>Limit := 0, Offset := 0\<rparr>) db of
             (Inl e, db1) \<Rightarrow> (Inl e, db1)
           | (Inr raw, db1) \<Rightarrow>
               (Inr (NaiveLimit
                       (NaiveOffset (NaiveOrder (foldl NaiveFilter raw (Filters q)) (Orders q))
                          (Offset q))
                       (Limit q)), db1))"
    by (rule query_deferred)
next
  fix raw db1
  assume "RawQuery d (q\<lparr>Limit := 0, Offset := 0\<rparr>) db = (Inr raw, db1)"
  then show "NaiveLimit
          (NaiveOffset (NaiveOrder (foldl NaiveFilter raw (Filters q)) (Orders q)) (Offset q))
          (Limit q)
        = (if Limit q \<le> 0
           then drop (nat (Offset q)) (NaiveOrder (foldl NaiveFilter raw (Filters q)) (Orders q))
           else take (nat (Limit q))
                  (drop (nat (Offset q))
                     (NaiveOrder (foldl NaiveFilter raw (Filters q)) (Orders q))))"
    by (rule deferred_window)
qed

theorem limit_offset_pushed_or_deferred_witness:
  "QueryWithParams_sql (sqlite_NewQueries ''blocks'') window_query = ''SELECT key, data FROM blocks''
 \<and> fst (Datastore_Query (NewDatastore (sqlite_NewQueries ''blocks'')) window_query keys_db)
     = Inr [\<lparr>Entry = \<lparr>Key = ''/b/1'', Value = [5], Size = 0\<rparr>, Error = None\<rparr>]
 \<and> take 1 (drop 1
       (NaiveOrder
          (foldl NaiveFilter
             (projr (fst (RawQuery (NewDatastore (sqlite_NewQueries ''blocks''))
                            (window_query\<lparr>Limit := 0, Offset := 0\<rparr>) keys_db)))
             (Filters window_query))
          (Orders window_query)))
     = [\<lparr>Entry = \<lparr>Key = ''/b/1'', Value = [5], Size = 0\<rparr>, Error = None\<rparr>]
 \<and> QueryWithParams_sql (sqlite_NewQueries ''blocks'') (window_query\<lparr>Filters := [], Orders := []\<rparr>)
     = ''SELECT key, data FROM blocks LIMIT 1 OFFSET 1''
 \<and> fst (Datastore_Query (NewDatastore (sqlite_NewQueries ''blocks''))
        (window_query\<lparr>Filters := [], Orders := []\<rparr>) keys_db)
     = Inr [\<lparr>Entry = \<lparr>Key = ''/a/2'', Value = [2], Size = 0\<rparr>, Error = None\<rparr>]"
proof -
  let ?qs = "sqlite_NewQueries ''blocks''"
  let ?d = "NewDatastore ?qs"
  let ?q0 = "window_query\<lparr>Limit := 0, Offset := 0\<rparr>"
  let ?p = "window_query\<lparr>Filters := [], Orders := []\<rparr>"
  let ?raw = "[\<lparr>Entry = \<lparr>Key = ''/c/1'', Value = [3], Size = 0\<rparr>, Error = None\<rparr>,
               \<lparr>Entry = \<lparr>Key = ''/a/2'', Value = [2], Size = 0\<rparr>, Error = None\<rparr>,
               \<lparr>Entry = \<lparr>Key = ''/x'', Value = [9], Size = 0\<rparr>, Error = None\<rparr>,
               \<lparr>Entry = \<lparr>Key = ''/ab/1'', Value = [4], Size = 0\<rparr>, Error = None\<rparr>,
               \<lparr>Entry = \<lparr>Key = ''/a/1'', Value = [1], Size = 0\<rparr>, Error = None\<rparr>,
               \<lparr>Entry = \<lparr>Key = ''/b/1'', Value = [5], Size = 0\<rparr>, Error = None\<rparr>]"
  let ?ordered = "NaiveOrder (foldl NaiveFilter ?raw (Filters window_query)) (Orders window_query)"
  have dialect: "?qs = postgres_NewQueries ''blocks'' \<or> ?qs = sqlite_NewQueries ''blocks''"
    by simp
  note deferred = limit_offset_pushed_or_deferred[OF dialect, where q = window_query
      and d = ?d and db = keys_db]
  note pushed = limit_offset_pushed_or_deferred[OF dialect, where q = ?p
      and d = ?d and db = keys_db]
  have filtered: "Filters window_query \<noteq> [] \<or> Orders window_query \<noteq> []"
    "\<not> (Filters window_query = [] \<and> Orders window_query = [])"
    by (simp_all add: window_query_def)
  have plain: "Filters ?p = [] \<and> Orders ?p = []" "Limit ?p \<noteq> 0" "Offset ?p \<noteq> 0"
    "Limit ?p = 1" "Offset ?p = 1"
    by (simp_all add: window_query_def)
  have window: "Limit window_query = 1" "Offset window_query = 1"
    by (simp_all add: window_query_def)
  have base: "QueryWithParams_sql ?qs ?q0 = ''SELECT key, data FROM blocks''"
    "QueryWithParams_sql ?qs (?p\<lparr>Limit := 0, Offset := 0\<rparr>) = ''SELECT key, data FROM blocks''"
    "dec_int 1 = ''1''"
    by code_simp+
  have raw: "fst (RawQuery ?d ?q0 keys_db) = Inr ?raw"
    by code_simp
  have rawp: "fst (RawQuery ?d ?p keys_db)
     = Inr [\<lparr>Entry = \<lparr>Key = ''/a/2'', Value = [2], Size = 0\<rparr>, Error = None\<rparr>]"
    by code_simp
  have cut: "NaiveLimit (NaiveOffset ?ordered (Offset window_query)) (Limit window_query)
     = [\<lparr>Entry = \<lparr>Key = ''/b/1'', Value = [5], Size = 0\<rparr>, Error = None\<rparr>]"
    by code_simp
  have sql: "QueryWithParams_sql ?qs window_query = ''SELECT key, data FROM blocks''"
    using deferred[THEN conjunct1] filtered(2) base(1) by simp
  obtain r db1 where run: "RawQuery ?d ?q0 keys_db = (r, db1)"
    by (cases "RawQuery ?d ?q0 keys_db") auto
  with raw have r: "r = Inr ?raw" by simp
  have res: "fst (Datastore_Query ?d window_query keys_db)
     = Inr [\<lparr>Entry = \<lparr>Key = ''/b/1'', Value = [5], Size = 0\<rparr>, Error = None\<rparr>]"
    using deferred[THEN conjunct2, THEN conjunct2, THEN conjunct1, rule_format, OF filtered(1)]
      run r cut
    by simp
  have "NaiveLimit (NaiveOffset ?ordered (Offset window_query)) (Limit window_query)
     = take (nat (Limit window_query)) (drop (nat (Offset window_query)) ?ordered)"
    using deferred[THEN conjunct2, THEN conjunct2, THEN conjunct2, rule_format,
        OF run[unfolded r]] window
    by simp
  with cut window have slice: "take 1 (drop 1 ?ordered)
     = [\<lparr>Entry = \<lparr>Key = ''/b/1'', Value = [5], Size = 0\<rparr>, Error = None\<rparr>]"
    by simp
  have sqlp: "QueryWithParams_sql ?qs ?p = ''SELECT key, data FROM blocks LIMIT 1 OFFSET 1''"
    using pushed[THEN conjunct1] plain base(2,3) by simp
  have resp: "fst (Datastore_Query ?d ?p keys_db)
     = Inr [\<lparr>Entry = \<lparr>Key = ''/a/2'', Value = [2], Size = 0\<rparr>, Error = None\<rparr>]"
    using pushed[THEN conjunct2, THEN conjunct1, rule_format, OF plain(1)] rawp by simp
  from sql res slice[folded raw[THEN arg_cong[where f = projr], simplified]] sqlp resp
  show ?thesis by blast
qed

section \<open>Prefix queries\<close>

lemma like_any: "like_match ''%'' s"
  by (induction s) simp_all

lemma glob_any: "glob_match ''*'' s"
  by (induction s) simp_all

lemma like_plain_prefix: "plain Like p \<Longrightarrow> like_match (p @ ''/%'') k = key_below p k"
proof (induction p arbitrary: k)
  case Nil
  then show ?case using like_any by (cases k) (auto simp: key_below_def)
next
  case (Cons c p)
  then show ?case
    by (cases k) (auto simp: key_below_def plain_def special_def)
qed

lemma glob_plain_prefix: "plain Glob p \<Longrightarrow> glob_match (p @ ''/*'') k = key_below p k"
proof (induction p arbitrary: k)
  case Nil
  then show ?case using glob_any by (cases k) (auto simp: key_below_def)
next
  case (Cons c p)
  then show ?case
    by (cases k) (auto simp: key_below_def plain_def special_def)
qed

lemma takeWhile_until: "c \<notin> set xs \<Longrightarrow> takeWhile (\<lambda>x. x \<noteq> c) (xs @ c # ys) = xs"
  by (induction xs) auto

lemma dropWhile_until: "c \<notin> set xs \<Longrightarrow> dropWhile (\<lambda>x. x \<noteq> c) (xs @ c # ys) = c # ys"
  by (induction xs) auto

lemma takeWhile_all: "c \<notin> set xs \<Longrightarrow> takeWhile (\<lambda>x. x \<noteq> c) xs = xs"
  by (induction xs) auto

lemma dropWhile_all: "c \<notin> set xs \<Longrightarrow> dropWhile (\<lambda>x. x \<noteq> c) xs = []"
  by (induction xs) auto

lemma parse_select_all:
  assumes "CHR '' '' \<notin> set tbl"
  shows "parse_select (''SELECT key, data FROM '' @ tbl)
       = Some \<lparr>s_table = tbl, s_where = None, s_limit = None, s_offset = None\<rparr>"
  using assms
  by (simp add: parse_select_def parse_where_def parse_pattern_def parse_count_def
      takeWhile_all dropWhile_all)

lemma parse_select_like:
  assumes "CHR '' '' \<notin> set tbl" and "quote \<notin> set pat"
  shows "parse_select (''SELECT key, data FROM '' @ tbl @ '' WHERE key LIKE '' @ [quote] @ pat
           @ [quote] @ '' ORDER BY key'')
       = Some \<lparr>s_table = tbl, s_where = Some (Like, pat), s_limit = None, s_offset = None\<rparr>"
proof -
  have a: "takeWhile (\<lambda>c. c \<noteq> CHR '' '') (tbl @ CHR '' '' # r) = tbl"
    "dropWhile (\<lambda>c. c \<noteq> CHR '' '') (tbl @ CHR '' '' # r) = CHR '' '' # r" for r
    using assms(1) by (simp_all add: takeWhile_until dropWhile_until)
  have b: "takeWhile (\<lambda>c. c \<noteq> quote) (pat @ quote # r) = pat"
    "dropWhile (\<lambda>c. c \<noteq> quote) (pat @ quote # r) = quote # r" for r
    using assms(2) by (simp_all add: takeWhile_until dropWhile_until)
  show ?thesis
    by (simp add: parse_select_def parse_where_def parse_pattern_def parse_count_def a b)
qed

lemma parse_select_glob:
  assumes "CHR '' '' \<notin> set tbl" and "quote \<notin> set pat"
  shows "parse_select (''SELECT key, data FROM '' @ tbl @ '' WHERE key GLOB '' @ [quote] @ pat
           @ [quote] @ '' ORDER BY key'')
       = Some \<lparr>s_table = tbl, s_where = Some (Glob, pat), s_limit = None, s_offset = None\<rparr>"
proof -
  have a: "takeWhile (\<lambda>c. c \<noteq> CHR '' '') (tbl @ CHR '' '' # r) = tbl"
    "dropWhile (\<lambda>c. c \<noteq> CHR '' '') (tbl @ CHR '' '' # r) = CHR '' '' # r" for r
    using assms(1) by (simp_all add: takeWhile_until dropWhile_until)
  have b: "takeWhile (\<lambda>c. c \<noteq> quote) (pat @ quote # r) = pat"
    "dropWhile (\<lambda>c. c \<noteq> quote) (pat @ quote # r) = quote # r" for r
    using assms(2) by (simp_all add: takeWhile_until dropWhile_until)
  show ?thesis
    by (simp add: parse_select_def parse_where_def parse_pattern_def parse_count_def a b)
qed


lemma prefix_fragment:
  "Sprintf (prefixQuery (postgres_NewQueries tbl)) [FStr (p @ ''/'')]
     = '' WHERE key LIKE '' @ [quote] @ (p @ ''/%'') @ [quote] @ '' ORDER BY key''"
  "Sprintf (prefixQuery (sqlite_NewQueries tbl)) [FStr (p @ ''/'')]
     = '' WHERE key GLOB '' @ [quote] @ (p @ ''/*'') @ [quote] @ '' ORDER BY key''"
  "queryQuery (postgres_NewQueries tbl) = ''SELECT key, data FROM '' @ tbl"
  "queryQuery (sqlite_NewQueries tbl) = ''SELECT key, data FROM '' @ tbl"
  by (simp_all add: postgres_NewQueries_def sqlite_NewQueries_def fmt_verb_def fmt_extra_def
      quote_def)

lemma plain_no_quote: "plain op p \<Longrightarrow> quote \<notin> set (p @ ''/%'') \<and> quote \<notin> set (p @ ''/*'')"
  by (auto simp: plain_def special_def list_all_iff quote_def)

lemma select_prefix:
  assumes dialect: "(qs = postgres_NewQueries tbl \<and> op = Like)
                  \<or> (qs = sqlite_NewQueries tbl \<and> op = Glob)"
    and tbl: "CHR '' '' \<notin> set tbl" "ts tbl = Some t"
    and plain: "plain op p"
  shows "select_on ts (queryQuery qs @ Sprintf (prefixQuery qs) [FStr (p @ ''/'')])
       = Inr (sort_key fst (filter (\<lambda>r. key_below p (fst r)) t))"
proof -
  from plain_no_quote[OF plain] have q: "quote \<notin> set (p @ ''/%'')" "quote \<notin> set (p @ ''/*'')"
    by auto
  from dialect show ?thesis
  proof
    assume "qs = postgres_NewQueries tbl \<and> op = Like"
    with plain tbl parse_select_like[OF tbl(1) q(1)] show ?thesis
      by (simp add: prefix_fragment select_on_def run_select_def pattern_match_def
          like_plain_prefix)
  next
    assume "qs = sqlite_NewQueries tbl \<and> op = Glob"
    with plain tbl parse_select_glob[OF tbl(1) q(2)] show ?thesis
      by (simp add: prefix_fragment select_on_def run_select_def pattern_match_def
          glob_plain_prefix)
  qed
qed

lemma select_all:
  assumes dialect: "qs = postgres_NewQueries tbl \<or> qs = sqlite_NewQueries tbl"
    and tbl: "CHR '' '' \<notin> set tbl" "ts tbl = Some t"
  shows "select_on ts (queryQuery qs) = Inr t"
  using dialect tbl parse_select_all[OF tbl(1)]
  by (auto simp: prefix_fragment select_on_def run_select_def)

lemma raw_query_rows:
  assumes "select_on (tables db) (QueryWithParams_sql (queries d) q) = Inr rows"
    and up: "\<not> closed db" "\<forall>c. fault db (log db) c = None" "\<forall>r. scan_fault db r = None"
  shows "fst (RawQuery d q db) = Inr (map (result_of q) rows)"
proof -
  have "map (scan_row db) rows = map Inr rows"
    using up(3) by (auto simp: scan_row_def)
  then have "ResultsFromIterator q (map (scan_row db) rows) = map (result_of q) rows"
    by (simp only: results_all_rows)
  with assms(1) up(1,2) show ?thesis
    by (simp add: RawQuery_def QueryWithParams_def db_Query_def refuse_def Let_def)
qed

text \<open>
  C3 (as amended). With the statements of either dialect, a table name without a space and
  a reachable database whose rows can all be decoded. First conjunct, for every query: the
  composed statement is the bulk select, then, exactly when the prefix is not empty and its
  canonical form \<open>NewKey (Prefix q)\<close> is not the root, the prefix fragment with the
  canonical prefix and a separator spliced in, then the limit and offset fragments if any.
  Second conjunct: that fragment is the \<^verbatim>\<open>LIKE\<close> clause with the pattern \<^verbatim>\<open>p/%\<close>, or the
  \<^verbatim>\<open>GLOB\<close> clause with the pattern \<^verbatim>\<open>p/*\<close>. Third conjunct, for a query without limit and
  offset: when the canonical prefix is plain (it has no quote and none of \<^verbatim>\<open>% _ \\<close> for
  \<^verbatim>\<open>LIKE\<close>, none of \<^verbatim>\<open>* ? [\<close> for \<^verbatim>\<open>GLOB\<close>), the rows delivered are exactly the rows
  whose key is strictly below the canonical prefix, in key order, whatever their order in
  the table. Fourth conjunct: for an empty prefix or one whose canonical form is the root,
  every row of the table is delivered.
\<close>

theorem prefix_selects_subtree:
  assumes dialect: "(qs = postgres_NewQueries tbl \<and> op = Like)
                  \<or> (qs = sqlite_NewQueries tbl \<and> op = Glob)"
    and tbl: "CHR '' '' \<notin> set tbl" "tables db tbl = Some t"
    and up: "\<not> closed db" "\<forall>c. fault db (log db) c = None" "\<forall>r. scan_fault db r = None"
  shows
    "QueryWithParams_sql qs q
       = queryQuery qs
         @ (if Prefix q \<noteq> [] \<and> NewKey (Prefix q) \<noteq> ''/''
            then Sprintf (prefixQuery qs) [FStr (NewKey (Prefix q) @ ''/'')] else [])
         @ (if Filters q = [] \<and> Orders q = [] then
              (if Limit q \<noteq> 0 then Sprintf (limitQuery qs) [FInt (Limit q)] else [])
              @ (if Offset q \<noteq> 0 then Sprintf (offsetQuery qs) [FInt (Offset q)] else [])
            else [])
   \<and> Sprintf (prefixQuery qs) [FStr (p @ ''/'')]
       = (case op of
            Like \<Rightarrow> '' WHERE key LIKE '' @ [quote] @ p @ ''/%'' @ [quote] @ '' ORDER BY key''
          | Glob \<Rightarrow> '' WHERE key GLOB '' @ [quote] @ p @ ''/*'' @ [quote] @ '' ORDER BY key'')
   \<and> (Limit q = 0 \<and> Offset q = 0 \<and> Prefix q \<noteq> [] \<and> NewKey (Prefix q) \<noteq> ''/''
        \<and> plain op (NewKey (Prefix q)) \<longrightarrow>
        fst (RawQuery (NewDatastore qs) q db)
          = Inr (map (result_of q)
              (sort_key fst (filter (\<lambda>r. key_below (NewKey (Prefix q)) (fst r)) t))))
   \<and> (Limit q = 0 \<and> Offset q = 0 \<and> (Prefix q = [] \<or> NewKey (Prefix q) = ''/'') \<longrightarrow>
        fst (RawQuery (NewDatastore qs) q db) = Inr (map (result_of q) t))"
proof -
  have composed: "QueryWithParams_sql qs q
       = queryQuery qs
         @ (if Prefix q \<noteq> [] \<and> NewKey (Prefix q) \<noteq> ''/''
            then Sprintf (prefixQuery qs) [FStr (NewKey (Prefix q) @ ''/'')] else [])
         @ (if Filters q = [] \<and> Orders q = [] then
              (if Limit q \<noteq> 0 then Sprintf (limitQuery qs) [FInt (Limit q)] else [])
              @ (if Offset q \<noteq> 0 then Sprintf (offsetQuery qs) [FInt (Offset q)] else [])
            else [])"
    by (simp add: QueryWithParams_sql_def Let_def)
  have fragment: "Sprintf (prefixQuery qs) [FStr (p @ ''/'')]
       = (case op of
            Like \<Rightarrow> '' WHERE key LIKE '' @ [quote] @ p @ ''/%'' @ [quote] @ '' ORDER BY key''
          | Glob \<Rightarrow> '' WHERE key GLOB '' @ [quote] @ p @ ''/*'' @ [quote] @ '' ORDER BY key'')"
    using dialect by (auto simp: prefix_fragment)
  have sql: "QueryWithParams_sql qs q =
     queryQuery qs @
     (if Prefix q \<noteq> [] \<and> NewKey (Prefix q) \<noteq> ''/''
      then Sprintf (prefixQuery qs) [FStr (NewKey (Prefix q) @ ''/'')] else [])"
    if "Limit q = 0" "Offset q = 0"
    using that by (simp add: QueryWithParams_sql_def Let_def)
  have d: "queries (NewDatastore qs) = qs"
    by (simp add: NewDatastore_def)
  from dialect have either: "qs = postgres_NewQueries tbl \<or> qs = sqlite_NewQueries tbl"
    by auto
  have below: "fst (RawQuery (NewDatastore qs) q db)
             = Inr (map (result_of q)
                 (sort_key fst (filter (\<lambda>r. key_below (NewKey (Prefix q)) (fst r)) t)))"
    if "Limit q = 0 \<and> Offset q = 0 \<and> Prefix q \<noteq> [] \<and> NewKey (Prefix q) \<noteq> ''/''
        \<and> plain op (NewKey (Prefix q))"
  proof -
    from that have *: "Limit q = 0" "Offset q = 0"
      "Prefix q \<noteq> [] \<and> NewKey (Prefix q) \<noteq> ''/''" "plain op (NewKey (Prefix q))"
      by auto
    from raw_query_rows[OF _ up, of "NewDatastore qs" q]
      select_prefix[where ts = "tables db" and p = "NewKey (Prefix q)", OF dialect tbl *(4)]
      *(3) sql[OF *(1,2)] d
    show ?thesis by simp
  qed
  have everything: "fst (RawQuery (NewDatastore qs) q db) = Inr (map (result_of q) t)"
    if "Limit q = 0 \<and> Offset q = 0 \<and> (Prefix q = [] \<or> NewKey (Prefix q) = ''/'')"
  proof -
    from that have *: "Limit q = 0" "Offset q = 0" "Prefix q = [] \<or> NewKey (Prefix q) = ''/''"
      by auto
    from raw_query_rows[OF _ up, of "NewDatastore qs" q]
      select_all[where ts = "tables db", OF either tbl] *(3) sql[OF *(1,2)] d
    show ?thesis by auto
  qed
  from composed fragment below everything show ?thesis
    by (intro conjI impI) assumption+
qed

theorem prefix_selects_subtree_witness:
  "QueryWithParams_sql (sqlite_NewQueries ''blocks'') (prefix_query ''/a'')
     = ''SELECT key, data FROM blocks WHERE key GLOB '' @ [quote] @ ''/a/*'' @ [quote]
       @ '' ORDER BY key''
 \<and> fst (RawQuery (NewDatastore (sqlite_NewQueries ''blocks'')) (prefix_query ''/a'') keys_db)
     = Inr [\<lparr>Entry = \<lparr>Key = ''/a/1'', Value = [1], Size = 1\<rparr>, Error = None\<rparr>,
            \<lparr>Entry = \<lparr>Key = ''/a/2'', Value = [2], Size = 1\<rparr>, Error = None\<rparr>]
 \<and> QueryWithParams_sql (sqlite_NewQueries ''blocks'') (prefix_query ''//'')
     = ''SELECT key, data FROM blocks''
 \<and> map (\<lambda>r. Key (Entry r))
       (projr (fst (RawQuery (NewDatastore (sqlite_NewQueries ''blocks'')) (prefix_query ''//'')
          keys_db)))
     = [''/c/1'', ''/a/2'', ''/x'', ''/ab/1'', ''/a/1'', ''/b/1'']"
proof -
  let ?qs = "sqlite_NewQueries ''blocks''"
  let ?rows = "[(''/c/1'', [3]), (''/a/2'', [2]), (''/x'', [9]), (''/ab/1'', [4]), (''/a/1'', [1]),
           (''/b/1'', [5 :: 8 word])]"
  have dialect: "(?qs = postgres_NewQueries ''blocks'' \<and> Glob = Like)
      \<or> (?qs = sqlite_NewQueries ''blocks'' \<and> Glob = Glob)"
    by simp
  have tbl: "CHR '' '' \<notin> set ''blocks''" "tables keys_db ''blocks'' = Some ?rows"
    by (simp_all add: keys_db_def example_db_def)
  have up: "\<not> closed keys_db" "\<forall>c. fault keys_db (log keys_db) c = None"
    "\<forall>r. scan_fault keys_db r = None"
    by (simp_all add: keys_db_def example_db_def)
  have window: "Limit (prefix_query p) = 0" "Offset (prefix_query p) = 0" for p
    by (simp_all add: prefix_query_def)
  note sub = prefix_selects_subtree[OF dialect tbl up]
  note sql_a = sub[where q = "prefix_query ''/a''", THEN conjunct1]
  note below = sub[where q = "prefix_query ''/a''", THEN conjunct2, THEN conjunct2, THEN conjunct1]
  note sql_r = sub[where q = "prefix_query ''//''", THEN conjunct1]
  note root = sub[where q = "prefix_query ''//''", THEN conjunct2, THEN conjunct2, THEN conjunct2]
  have a: "Prefix (prefix_query ''/a'') \<noteq> [] \<and> NewKey (Prefix (prefix_query ''/a'')) \<noteq> ''/''"
    "plain Glob (NewKey (Prefix (prefix_query ''/a'')))"
    "NewKey (Prefix (prefix_query ''/a'')) = ''/a''"
    by code_simp+
  have r: "NewKey (Prefix (prefix_query ''//'')) = ''/''"
    by code_simp
  have frag: "queryQuery ?qs @ Sprintf (prefixQuery ?qs) [FStr (''/a'' @ ''/'')]
     = ''SELECT key, data FROM blocks WHERE key GLOB '' @ [quote] @ ''/a/*'' @ [quote]
       @ '' ORDER BY key''"
    "queryQuery ?qs = ''SELECT key, data FROM blocks''"
    by code_simp+
  have sorted: "map (result_of (prefix_query ''/a''))
       (sort_key fst (filter (\<lambda>r. key_below ''/a'' (fst r)) ?rows))
     = [\<lparr>Entry = \<lparr>Key = ''/a/1'', Value = [1], Size = 1\<rparr>, Error = None\<rparr>,
        \<lparr>Entry = \<lparr>Key = ''/a/2'', Value = [2], Size = 1\<rparr>, Error = None\<rparr>]"
    by code_simp
  have all: "map (\<lambda>r. Key (Entry r)) (map (result_of (prefix_query ''//'')) ?rows)
     = [''/c/1'', ''/a/2'', ''/x'', ''/ab/1'', ''/a/1'', ''/b/1'']"
    by code_simp
  have plainq: "Filters (prefix_query p) = [] \<and> Orders (prefix_query p) = []" for p
    by (simp add: prefix_query_def)
  from sql_a below a frag sorted window plainq have
    "QueryWithParams_sql ?qs (prefix_query ''/a'')
       = ''SELECT key, data FROM blocks WHERE key GLOB '' @ [quote] @ ''/a/*'' @ [quote]
         @ '' ORDER BY key''"
    "fst (RawQuery (NewDatastore ?qs) (prefix_query ''/a'') keys_db)
     = Inr [\<lparr>Entry = \<lparr>Key = ''/a/1'', Value = [1], Size = 1\<rparr>, Error = None\<rparr>,
            \<lparr>Entry = \<lparr>Key = ''/a/2'', Value = [2], Size = 1\<rparr>, Error = None\<rparr>]"
    by simp_all
  moreover from sql_r root r frag all window plainq have
    "QueryWithParams_sql ?qs (prefix_query ''//'') = ''SELECT key, data FROM blocks''"
    "map (\<lambda>r. Key (Entry r))
       (projr (fst (RawQuery (NewDatastore ?qs) (prefix_query ''//'') keys_db)))
     = [''/c/1'', ''/a/2'', ''/x'', ''/ab/1'', ''/a/1'', ''/b/1'']"
    by simp_all
  ultimately show ?thesis by simp
qed

theorem prefix_with_wildcard_counterexample:
  "fst (RawQuery (NewDatastore (postgres_NewQueries ''blocks'')) (prefix_query ''/a_'') keys_db)
     = Inr [\<lparr>Entry = \<lparr>Key = ''/ab/1'', Value = [4], Size = 1\<rparr>, Error = None\<rparr>]
 \<and> NewKey (Prefix (prefix_query ''/a_'')) = ''/a_''
 \<and> \<not> key_below ''/a_'' ''/ab/1''"
  by code_simp


text \<open>
  C8. The closure \<open>Next\<close> answers a row that cannot be scanned with a result carrying the
  scan error and \<^verbatim>\<open>false\<close>, exactly as it answers the end of the rows with the zero result
  and \<^verbatim>\<open>false\<close>. On the database whose third row \<^verbatim>\<open>/x\<close> cannot be decoded, the stream of
  \<open>RawQuery\<close> therefore yields the first two rows and ends: the scan error is not an element
  of the sequence, and the rows after \<^verbatim>\<open>/x\<close> are not delivered.
\<close>

theorem scan_error_ends_stream_unreported:
  "RawQuery_Next (prefix_query ''/'') [Inl (DriverError ''unsupported Scan''), Inr (''/ab/1'', [4])]
     = ((\<lparr>Entry = zero_Entry, Error = Some (DriverError ''unsupported Scan'')\<rparr>, False),
        [Inr (''/ab/1'', [4])])
 \<and> RawQuery_Next (prefix_query ''/'') [] = ((zero_Result, False), [])
 \<and> fst (RawQuery (NewDatastore (postgres_NewQueries ''blocks'')) (prefix_query ''/'')
        undecodable_db)
     = Inr [\<lparr>Entry = \<lparr>Key = ''/c/1'', Value = [3], Size = 1\<rparr>, Error = None\<rparr>,
            \<lparr>Entry = \<lparr>Key = ''/a/2'', Value = [2], Size = 1\<rparr>, Error = None\<rparr>]"
  by code_simp

section \<open>Constructors\<close>

lemma postgres_create_makes_no_call:
  assumes "postgres_Create sql_Open opts = Inr (d, db)"
  shows "\<exists>dsn. sql_Open ''postgres'' dsn = Inr db"
  using assms by (auto simp: postgres_Create_def Let_def split: sum.splits)

lemma sqlite_create_probes:
  assumes "sqlite_Create sql_Open opts = Inr (d, db)"
  shows "\<exists>drv dsn db0. sql_Open drv dsn = Inr db0 \<and> fst (db_Ping db0) = None"
  using assms
  by (auto simp: sqlite_Create_def Let_def split: sum.splits if_splits prod.splits option.splits)
    (metis fst_conv)+

text \<open>
  C4. A database that cannot be reached: the probe \<open>Ping\<close> on its handle fails. The
  embedded constructor returns that failure, wrapped, and no datastore. The postgres
  constructor returns a datastore and no error, without having made any call on the
  handle; the failure shows at the first operation.
\<close>

theorem postgres_create_skips_probe:
  "fst (db_Ping (refusing_db\<lparr>tables := Map.empty\<rparr>)) = Some (DriverError ''connection refused'')
 \<and> map_sum id fst (sqlite_Create open_unreachable sqlite_zero_Options)
     = Inl (Wrap (DriverError ''connection refused'') ''failed to ping database'')
 \<and> map_sum id fst (postgres_Create open_unreachable postgres_zero_Options)
     = Inr (NewDatastore (postgres_NewQueries ''blocks''))
 \<and> map_sum id (\<lambda>r. log (snd r)) (postgres_Create open_unreachable postgres_zero_Options)
     = Inr []
 \<and> map_sum id (\<lambda>r. fst (Datastore_Has (fst r) ''/x'' (snd r)))
       (postgres_Create open_unreachable postgres_zero_Options)
     = Inr (False, Some (DriverError ''connection refused''))"
  by code_simp


end
